theory Spec2Isabelle
  imports Complex_Main "HOL-Library.Multiset"
begin

section \<open>JavaScript numbers\<close>

text \<open>
  The program computes with IEEE doubles. A finite double is modelled by the real number it
  denotes (rounding is not modelled); the non-finite values are kept apart because the code
  branches on \<^verbatim>\<open>Number.isFinite\<close>, on \<^verbatim>\<open>x || 0\<close> and on \<^verbatim>\<open>x == null\<close>.
\<close>

datatype num = Fin real | PInf | NInf | NaN

text \<open>\<^verbatim>\<open>x || 0\<close> on a number: \<^verbatim>\<open>NaN\<close> and \<^verbatim>\<open>0\<close> are falsy, everything else is kept.\<close>

fun orZero :: "num \<Rightarrow> num" where
  "orZero NaN = Fin 0"
| "orZero v = v"

text \<open>\<^verbatim>\<open>n - r\<close> for a finite right operand.\<close>

fun num_minus :: "num \<Rightarrow> real \<Rightarrow> num" where
  "num_minus (Fin a) r = Fin (a - r)"
| "num_minus v r = v"

text \<open>
  \<^verbatim>\<open>function clamp(n, a, b) { const v = Number(n); if (!Number.isFinite(v)) return a;
  return Math.min(b, Math.max(a, v)); }\<close> (session-viewer-controller.js and time-sync.js).
\<close>

fun clamp :: "num \<Rightarrow> real \<Rightarrow> real \<Rightarrow> real" where
  "clamp (Fin v) a b = min b (max a v)"
| "clamp n a b = a"

text \<open>
  \<^verbatim>\<open>function safeNum(x, fallback) { const v = Number(x); return Number.isFinite(v) ? v : fallback; }\<close>
  The argument \<open>None\<close> stands for \<^verbatim>\<open>null\<close>, and \<^verbatim>\<open>Number(null)\<close> is \<open>0\<close>.
\<close>

fun safeNum :: "num option \<Rightarrow> real option \<Rightarrow> real option" where
  "safeNum None fallback = Some 0"
| "safeNum (Some (Fin v)) fallback = Some v"
| "safeNum (Some n) fallback = fallback"

section \<open>TimeBase normalizer (session-viewer-controller.js)\<close>

text \<open>
  A CSV cell is a trimmed string. \<open>NumText v\<close> stands for a text that \<^verbatim>\<open>Number()\<close> maps to the
  finite value \<open>v\<close> (this includes the text written back by \<^verbatim>\<open>String(tScaled)\<close>);
  \<open>OtherText s\<close> is the text \<open>s\<close>, for which \<^verbatim>\<open>Number()\<close> is \<^verbatim>\<open>NaN\<close> or infinite.
\<close>

datatype cell = NumText real | OtherText string

type_synonym row = "cell list"

text \<open>\<^verbatim>\<open>safeNum(r?.[timeIdx], null)\<close>: a missing cell is \<^verbatim>\<open>undefined\<close>, whose number is \<^verbatim>\<open>NaN\<close>.\<close>

definition cellNum :: "row \<Rightarrow> nat \<Rightarrow> real option" where
  "cellNum r k =
     (if k < length r then (case r ! k of NumText v \<Rightarrow> Some v | OtherText s \<Rightarrow> None) else None)"

record scan =
  dts :: "real list"
  prev :: "real option"
  firstVal :: "real option"
  lastVal :: "real option"
  validCount :: nat

definition scan0 :: scan where
  "scan0 = \<lparr> dts = [], prev = None, firstVal = None, lastVal = None, validCount = 0 \<rparr>"

text \<open>One iteration of the first loop of \<^verbatim>\<open>detectTimeScaleFactor\<close>, at row index \<open>i\<close>.\<close>

definition scanRow :: "nat \<Rightarrow> nat \<Rightarrow> row \<Rightarrow> scan \<Rightarrow> scan" where
  "scanRow timeIdx i r s =
     (case cellNum r timeIdx of
        None \<Rightarrow> s
      | Some v \<Rightarrow>
          \<lparr> dts = (case prev s of
                     None \<Rightarrow> dts s
                   | Some p \<Rightarrow> if i < 201 \<and> v - p > 0 then dts s @ [v - p] else dts s),
            prev = Some v,
            firstVal = (case firstVal s of None \<Rightarrow> Some v | Some f \<Rightarrow> Some f),
            lastVal = Some v,
            validCount = validCount s + 1 \<rparr>)"

fun scanRows :: "nat \<Rightarrow> nat \<Rightarrow> row list \<Rightarrow> scan \<Rightarrow> scan" where
  "scanRows timeIdx i [] s = s"
| "scanRows timeIdx i (r # rs) s = scanRows timeIdx (i + 1) rs (scanRow timeIdx i r s)"

definition DT_MIN_S :: real where "DT_MIN_S = 5 / 10000"
definition DT_MAX_S :: real where "DT_MAX_S = 2"
definition RATE_MIN :: real where "RATE_MIN = 1"
definition RATE_MAX :: real where "RATE_MAX = 500"

text \<open>The body of the candidate loop: does \<open>scale\<close> pass both plausibility tests?\<close>

definition scaleOk :: "real \<Rightarrow> real \<Rightarrow> nat \<Rightarrow> real \<Rightarrow> bool" where
  "scaleOk medianDt rawSpan cnt scale =
     (let dtSec = medianDt * scale in
      if dtSec < DT_MIN_S \<or> dtSec > DT_MAX_S then False
      else
        let durSec = rawSpan * scale in
        if durSec \<le> 0 then False
        else
          let rate = real cnt / durSec in
          rate \<ge> RATE_MIN \<and> rate \<le> RATE_MAX)"

text \<open>
  \<^verbatim>\<open>for (let exp = 9; exp >= -3; exp--) { const scale = Math.pow(10, -exp); ... return scale; }\<close>
  (the loop variable \<^verbatim>\<open>exp\<close> is \<open>ex\<close> here).
  \<open>None\<close> means that the loop ran to its end without returning.
\<close>

function scaleLoop :: "int \<Rightarrow> real \<Rightarrow> real \<Rightarrow> nat \<Rightarrow> real option" where
  "scaleLoop ex medianDt rawSpan cnt =
     (if ex \<ge> -3 then
        (if scaleOk medianDt rawSpan cnt (10 powi (- ex)) then Some (10 powi (- ex))
         else scaleLoop (ex - 1) medianDt rawSpan cnt)
      else None)"
  by pat_completeness auto
termination
  by (relation "measure (\<lambda>(ex, m, r, c). nat (ex + 4))") auto

definition detectTimeScaleFactor :: "row list \<Rightarrow> nat \<Rightarrow> real" where
  "detectTimeScaleFactor rows timeIdx =
     (let s = scanRows timeIdx 0 rows scan0 in
      case (firstVal s, lastVal s) of
        (Some f, Some l) \<Rightarrow>
          if dts s = [] then 1
          else
            let sorted = sort (dts s);
                medianDt = sorted ! (length sorted div 2);
                rawSpan = l - f
            in if rawSpan \<le> 0 then 1
               else (case scaleLoop 9 medianDt rawSpan (validCount s) of
                       Some scale \<Rightarrow> scale
                     | None \<Rightarrow> (1 / 100) / medianDt)
      | _ \<Rightarrow> 1)"

text \<open>The object returned by \<^verbatim>\<open>normalizeTimeColumnInPlace\<close>; an absent \<^verbatim>\<open>scale\<close> key is \<open>None\<close>.\<close>

record norm_info =
  t0 :: "real option"
  maxT :: real
  t0Raw :: "real option"
  maxTRaw :: real
  scale :: "real option"

definition norm_none :: norm_info where
  "norm_none = \<lparr> t0 = None, maxT = 0, t0Raw = None, maxTRaw = 0, scale = None \<rparr>"

text \<open>
  The rewriting loop. The accumulator is \<open>(maxTRaw, maxT)\<close>; the rows come back rewritten.
  The write \<^verbatim>\<open>r[timeIdx] = String(tScaled)\<close> happens only where the cell was read as a finite
  number, so the index is inside the row.
\<close>

fun rewriteRows :: "nat \<Rightarrow> real \<Rightarrow> real \<Rightarrow> row list \<Rightarrow> real \<times> real \<Rightarrow> row list \<times> real \<times> real" where
  "rewriteRows timeIdx t0r sc [] acc = ([], acc)"
| "rewriteRows timeIdx t0r sc (r # rs) (mr, mt) =
     (case cellNum r timeIdx of
        None \<Rightarrow>
          (let (rs', acc') = rewriteRows timeIdx t0r sc rs (mr, mt) in (r # rs', acc'))
      | Some tRaw \<Rightarrow>
          (let tRebasedRaw = tRaw - t0r;
               tScaled = tRebasedRaw * sc;
               r' = r[timeIdx := NumText tScaled];
               mr' = (if tRebasedRaw > mr then tRebasedRaw else mr);
               mt' = (if tScaled > mt then tScaled else mt);
               (rs', acc') = rewriteRows timeIdx t0r sc rs (mr', mt')
           in (r' # rs', acc')))"

text \<open>\<open>timeIdx = None\<close> is \<^verbatim>\<open>null\<close>/\<^verbatim>\<open>undefined\<close>.\<close>

definition normalizeTimeColumnInPlace :: "row list \<Rightarrow> int option \<Rightarrow> row list \<times> norm_info" where
  "normalizeTimeColumnInPlace rows timeIdx =
     (if rows = [] then (rows, norm_none)
      else case timeIdx of
        None \<Rightarrow> (rows, norm_none)
      | Some ti \<Rightarrow>
          if ti < 0 then (rows, norm_none)
          else
            (case cellNum (hd rows) (nat ti) of
               None \<Rightarrow> (rows, norm_none)
             | Some t0r \<Rightarrow>
                 let sc = detectTimeScaleFactor rows (nat ti);
                     (rows', mr, mt) = rewriteRows (nat ti) t0r sc rows (0, 0)
                 in (rows', \<lparr> t0 = Some 0, maxT = mt, t0Raw = Some t0r, maxTRaw = mr,
                              scale = Some sc \<rparr>)))"

section \<open>IMU cursor and Time-Sync model\<close>

text \<open>
  One record holds the mutable state that the three scripts share:
  \<^item> \<^verbatim>\<open>imuCursor\<close>, \<^verbatim>\<open>imuMarker\<close>, \<^verbatim>\<open>imuTimeframe\<close> and \<^verbatim>\<open>imuFullRangeMaxX\<close> of
    session-viewer-controller.js;
  \<^item> the \<^verbatim>\<open>state\<close> object of time-sync.js (\<open>videoMarkerT\<close>, \<open>offset\<close>, \<open>t1\<close>, \<open>t2\<close>) and the
    enabled flag of its Follow/Manual buttons;
  \<^item> \<^verbatim>\<open>window.IMU_STATE.followVideo\<close>, the page controller's cached \<^verbatim>\<open>timeSync.offset\<close> and the
    \<^verbatim>\<open>currentTime\<close> of the video element (\<open>None\<close>: no video element) of video-metadata.js.
  The cursor fields only ever receive finite numbers, so they are reals.
\<close>

record viewer =
  cursor_x :: real
  cursor_minX :: real
  cursor_maxX :: real
  marker_x :: "real option"
  fullRangeMaxX :: real
  tf_t1 :: "real option"
  tf_t2 :: "real option"
  tf_active :: bool
  tf_start :: real
  tf_end :: real
  videoMarkerT :: "real option"
  offset :: "real option"
  t1 :: "real option"
  t2 :: "real option"
  followEnabled :: bool
  followVideo :: bool
  syncOffset :: "real option"
  video :: "num option"

definition initViewer :: "num option \<Rightarrow> viewer" where
  "initViewer v =
     \<lparr> cursor_x = 0, cursor_minX = 0, cursor_maxX = 0, marker_x = None, fullRangeMaxX = 0,
       tf_t1 = None, tf_t2 = None, tf_active = False, tf_start = 0, tf_end = 0,
       videoMarkerT = None, offset = None, t1 = None, t2 = None,
       followEnabled = False, followVideo = False, syncOffset = None, video = v \<rparr>"

text \<open>\<^verbatim>\<open>canFollow = () => !!window.IMU_STATE?.followVideo && Number.isFinite(timeSync.offset)\<close>\<close>

definition canFollow :: "viewer \<Rightarrow> bool" where
  "canFollow st = (followVideo st \<and> syncOffset st \<noteq> None)"

text \<open>
  The listener of \<^verbatim>\<open>movesync:imu-cursor-changed\<close> in \<^verbatim>\<open>wireVideoImuSync\<close> (IMU to video), as it
  runs when the user moved the cursor: \<^verbatim>\<open>videoT = imuTime + timeSync.offset;
  v.currentTime = Math.max(0, videoT)\<close>. Without a video element it is never registered.
\<close>

definition imuCursorChanged :: "viewer \<Rightarrow> viewer" where
  "imuCursorChanged st =
     (case video st of
        None \<Rightarrow> st
      | Some ct \<Rightarrow>
          if \<not> canFollow st then st
          else
            (case syncOffset st of
               None \<Rightarrow> st
             | Some off \<Rightarrow> st\<lparr> video := Some (Fin (max 0 (cursor_x st + off))) \<rparr>))"

text \<open>
  \<^verbatim>\<open>imuCursor.x = clamp(Number(x) || 0, imuCursor.minX || 0, imuCursor.maxX || 0)\<close>; on the
  finite bounds \<^verbatim>\<open>|| 0\<close> changes nothing.
\<close>

definition moveCursor :: "num \<Rightarrow> viewer \<Rightarrow> viewer" where
  "moveCursor x st = st\<lparr> cursor_x := clamp (orZero x) (cursor_minX st) (cursor_maxX st) \<rparr>"

text \<open>\<^verbatim>\<open>setImuCursorX\<close> called for the user (slider, chart hover): the event reaches the listener.\<close>

definition setImuCursorX :: "num \<Rightarrow> viewer \<Rightarrow> viewer" where
  "setImuCursorX x st = imuCursorChanged (moveCursor x st)"

text \<open>
  \<^verbatim>\<open>pushVideoTimeToImu\<close> (video to IMU): \<^verbatim>\<open>imuT = videoT - off\<close>, then \<^verbatim>\<open>setCursorX(imuT)\<close>
  under \<^verbatim>\<open>suppressImuToVideo\<close>, so the listener above returns at once.
\<close>

definition pushVideoTimeToImu :: "viewer \<Rightarrow> viewer" where
  "pushVideoTimeToImu st =
     (case video st of
        None \<Rightarrow> st
      | Some ct \<Rightarrow>
          if \<not> canFollow st then st
          else
            (case syncOffset st of
               None \<Rightarrow> st
             | Some off \<Rightarrow> moveCursor (num_minus (orZero ct) off) st))"

text \<open>The playhead moves to \<open>t\<close> and the video fires \<^verbatim>\<open>timeupdate\<close>/\<^verbatim>\<open>seeked\<close>.\<close>

definition videoTimeUpdate :: "num \<Rightarrow> viewer \<Rightarrow> viewer" where
  "videoTimeUpdate t st =
     (case video st of None \<Rightarrow> st | Some ct \<Rightarrow> pushVideoTimeToImu (st\<lparr> video := Some t \<rparr>))"

text \<open>\<^verbatim>\<open>setFollowVideoMode\<close> and the listener of \<^verbatim>\<open>movesync:time-sync-mode-changed\<close>.\<close>

definition setFollowVideoMode :: "bool \<Rightarrow> viewer \<Rightarrow> viewer" where
  "setFollowVideoMode b st = pushVideoTimeToImu (st\<lparr> followVideo := b \<rparr>)"

text \<open>The click handlers of the Follow and Manual buttons.\<close>

definition clickFollow :: "bool \<Rightarrow> viewer \<Rightarrow> viewer" where
  "clickFollow b st = (if followEnabled st then setFollowVideoMode b st else st)"

text \<open>
  The two listeners of \<^verbatim>\<open>movesync:time-sync-changed\<close>: the page controller caches the offset,
  then \<^verbatim>\<open>wireVideoImuSync\<close> snaps the cursor when following.
\<close>

definition timeSyncChanged :: "viewer \<Rightarrow> viewer" where
  "timeSyncChanged st = pushVideoTimeToImu (st\<lparr> syncOffset := offset st \<rparr>)"

definition markVideo :: "viewer \<Rightarrow> viewer" where
  "markVideo st =
     (case video st of
        Some (Fin v) \<Rightarrow> st\<lparr> videoMarkerT := Some v \<rparr>
      | _ \<Rightarrow> st)"

text \<open>\<^verbatim>\<open>setMarkerX\<close> of the IMU panel API.\<close>

fun setMarkerX :: "num option \<Rightarrow> viewer \<Rightarrow> viewer" where
  "setMarkerX None st = st\<lparr> marker_x := None \<rparr>"
| "setMarkerX (Some (Fin v)) st = st\<lparr> marker_x := Some (clamp (Fin v) 0 (cursor_maxX st)) \<rparr>"
| "setMarkerX (Some n) st = st"

definition markImu :: "viewer \<Rightarrow> viewer" where
  "markImu st = setMarkerX (Some (Fin (cursor_x st))) st"

definition computeOffset :: "viewer \<Rightarrow> viewer" where
  "computeOffset st =
     (case (videoMarkerT st, marker_x st) of
        (Some v, Some m) \<Rightarrow>
          timeSyncChanged
            (setFollowVideoMode False (st\<lparr> offset := Some (v - m), followEnabled := True \<rparr>))
      | _ \<Rightarrow> st)"

definition resetZoomToFullRange :: "viewer \<Rightarrow> viewer" where
  "resetZoomToFullRange st =
     (let st1 = st\<lparr> cursor_minX := 0, cursor_maxX := fullRangeMaxX st \<rparr>
      in st1\<lparr> cursor_x := clamp (orZero (Fin (cursor_x st1))) (cursor_minX st1) (cursor_maxX st1) \<rparr>)"

text \<open>The controller's listeners of the three timeframe events.\<close>

definition timeframeMarked :: "viewer \<Rightarrow> viewer" where
  "timeframeMarked st =
     st\<lparr> tf_t1 := safeNum (map_option Fin (t1 st)) (tf_t1 st),
         tf_t2 := safeNum (map_option Fin (t2 st)) (tf_t2 st) \<rparr>"

definition timeframeReset :: "viewer \<Rightarrow> viewer" where
  "timeframeReset st =
     resetZoomToFullRange
       (st\<lparr> tf_t1 := None, tf_t2 := None, tf_active := False, tf_start := 0, tf_end := 0 \<rparr>)"

definition timeframeApplied :: "real \<Rightarrow> real \<Rightarrow> viewer \<Rightarrow> viewer" where
  "timeframeApplied start end' st =
     (let a = min start end'; b = max start end'
      in st\<lparr> tf_active := True, tf_start := a, tf_end := b,
             tf_t1 := safeNum (map_option Fin (t1 st)) (tf_t1 st),
             tf_t2 := safeNum (map_option Fin (t2 st)) (tf_t2 st),
             cursor_minX := a, cursor_maxX := b,
             cursor_x := clamp (Fin (cursor_x st)) a b \<rparr>)"

text \<open>time-sync.js: T1/T2 marking and the timeframe.\<close>

definition markT1 :: "viewer \<Rightarrow> viewer" where
  "markT1 st = timeframeMarked (st\<lparr> t1 := Some (cursor_x st) \<rparr>)"

definition markT2 :: "viewer \<Rightarrow> viewer" where
  "markT2 st = timeframeMarked (st\<lparr> t2 := Some (cursor_x st) \<rparr>)"

definition resetT1T2 :: "viewer \<Rightarrow> viewer" where
  "resetT1T2 st = timeframeReset (st\<lparr> t1 := None, t2 := None \<rparr>)"

definition canApplyTimeframe :: "viewer \<Rightarrow> bool" where
  "canApplyTimeframe st =
     (case (t1 st, t2 st) of (Some a, Some b) \<Rightarrow> a \<noteq> b | _ \<Rightarrow> False)"

definition applyTimeframe :: "viewer \<Rightarrow> viewer" where
  "applyTimeframe st =
     (case (t1 st, t2 st) of
        (Some a, Some b) \<Rightarrow> if a \<noteq> b then timeframeApplied (min a b) (max a b) st else st
      | _ \<Rightarrow> st)"

definition clearAll :: "viewer \<Rightarrow> viewer" where
  "clearAll st =
     (let st1 = st\<lparr> videoMarkerT := None, offset := None, t1 := None, t2 := None \<rparr>;
          st2 = setMarkerX None st1;
          st3 = timeframeReset st2;
          st4 = setFollowVideoMode False (st3\<lparr> followEnabled := False \<rparr>)
      in timeSyncChanged st4)"

text \<open>
  \<^verbatim>\<open>renderImu\<close>, as far as it touches this state. \<open>None\<close>: the selected IMU has no CSV text;
  \<open>Some (rows, timeIdx)\<close>: the parsed rows and the index found by \<^verbatim>\<open>findTimeIndex\<close>.
\<close>

definition renderImu :: "(row list \<times> nat) option \<Rightarrow> viewer \<Rightarrow> viewer" where
  "renderImu csv st =
     (case csv of
        None \<Rightarrow>
          st\<lparr> cursor_minX := 0, cursor_maxX := 0, cursor_x := 0, fullRangeMaxX := 0,
              marker_x := None \<rparr>
      | Some (rows, timeIdx) \<Rightarrow>
          (let norm = snd (normalizeTimeColumnInPlace rows (Some (int timeIdx)))
           in st\<lparr> cursor_maxX := maxT norm, cursor_minX := 0, cursor_x := 0,
                  fullRangeMaxX := maxT norm \<rparr>))"

text \<open>What can happen to a mounted viewer, and the states it can reach.\<close>

datatype event =
    SetCursor num
  | VideoTime num
  | ClickFollow bool
  | MarkVideo
  | MarkImu
  | ComputeOffset
  | MarkT1
  | MarkT2
  | ResetT1T2
  | ApplyTimeframe
  | ClearAll
  | RenderImu "(row list \<times> nat) option"

fun step :: "event \<Rightarrow> viewer \<Rightarrow> viewer" where
  "step (SetCursor x) st = setImuCursorX x st"
| "step (VideoTime t) st = videoTimeUpdate t st"
| "step (ClickFollow b) st = clickFollow b st"
| "step MarkVideo st = markVideo st"
| "step MarkImu st = markImu st"
| "step ComputeOffset st = computeOffset st"
| "step MarkT1 st = markT1 st"
| "step MarkT2 st = markT2 st"
| "step ResetT1T2 st = resetT1T2 st"
| "step ApplyTimeframe st = applyTimeframe st"
| "step ClearAll st = clearAll st"
| "step (RenderImu csv) st = renderImu csv st"

definition run :: "event list \<Rightarrow> viewer \<Rightarrow> viewer" where
  "run evs st = fold step evs st"

section \<open>Relative Angle Engine (arm-angle module of movenet.js)\<close>

text \<open>\<^verbatim>\<open>const clamp = (v, min, max) => Math.max(min, Math.min(max, v))\<close> of the arm-angle module.\<close>

definition clampA :: "real \<Rightarrow> real \<Rightarrow> real \<Rightarrow> real" where
  "clampA v lo hi = max lo (min hi v)"

definition rad2deg :: "real \<Rightarrow> real" where
  "rad2deg r = (r * 180) / pi"

text \<open>A quaternion \<^verbatim>\<open>[w, x, y, z]\<close> after destructuring.\<close>

type_synonym quaternion = "real \<times> real \<times> real \<times> real"

fun conjugate :: "quaternion \<Rightarrow> quaternion" where
  "conjugate (w, x, y, z) = (w, - x, - y, - z)"

fun multiply :: "quaternion \<Rightarrow> quaternion \<Rightarrow> quaternion" where
  "multiply (w1, x1, y1, z1) (w2, x2, y2, z2) =
     (w1 * w2 - x1 * x2 - y1 * y2 - z1 * z2,
      w1 * x2 + x1 * w2 + y1 * z2 - z1 * y2,
      w1 * y2 - x1 * z2 + y1 * w2 + z1 * x2,
      w1 * z2 + x1 * y2 - y1 * x2 + z1 * w2)"

fun canonicalize :: "quaternion \<Rightarrow> quaternion" where
  "canonicalize (w, x, y, z) = (if w < 0 then (- w, - x, - y, - z) else (w, x, y, z))"

definition relativeAngleDeg :: "quaternion \<Rightarrow> quaternion \<Rightarrow> real" where
  "relativeAngleDeg qA qB =
     (let a = canonicalize qA;
          b = canonicalize qB;
          qRel = multiply b (conjugate a);
          w = clampA (fst qRel) (- 1) 1;
          angleRad = 2 * arccos w
      in rad2deg angleRad)"

record euler_angles =
  roll :: real
  pitch :: real
  yaw :: real

text \<open>
  One entry of \<^verbatim>\<open>orientations\<close>. \<^verbatim>\<open>quat\<close> is kept as the array it is, because the analyser
  checks its length; \<^verbatim>\<open>euler\<close> may be missing.
\<close>

record orientation =
  quat :: "real list"
  euler :: "euler_angles option"
  rotMatrix :: "real list list"

text \<open>
  A fusion result. The field \<^verbatim>\<open>times\<close> is \<open>ftimes\<close> here; it is \<open>None\<close> when the caller of the
  processor supplied no time array.
\<close>

record fusion_result =
  ftimes :: "real list option"
  orientations :: "orientation list"
  algorithm :: string
  sampleRate :: real

text \<open>The angle series \<^verbatim>\<open>out\<close>; its field \<^verbatim>\<open>times\<close> is \<open>atimes\<close> here.\<close>

record angle_series =
  elbow :: "real list"
  wrist :: "real list"
  shoulder :: "euler_angles option list"
  atimes :: "real list"

datatype arm_error =
    AllThreeMustBeSet
  | MissingTimes
  | NoSamples
  | InvalidShoulderQuat nat
  | InvalidElbowQuat nat
  | InvalidWristQuat nat
  | SelectThreeFirst
  | MustBeDifferent
  | NoFusionData
  | NoShoulderData
  | NoElbowData
  | NoWristData

definition toQuat :: "real list \<Rightarrow> quaternion" where
  "toQuat q = (q ! 0, q ! 1, q ! 2, q ! 3)"

definition eulerDeg :: "euler_angles option \<Rightarrow> euler_angles option" where
  "eulerDeg eu =
     map_option (\<lambda>a. \<lparr> roll = rad2deg (roll a), pitch = rad2deg (pitch a), yaw = rad2deg (yaw a) \<rparr>) eu"

text \<open>
  The loop of \<^verbatim>\<open>#compute\<close> from index \<open>i\<close> on, over the three streams cut to \<open>n\<close> entries. A
  failing \<^verbatim>\<open>assert\<close> throws, which ends the loop with \<open>Inl\<close>.
\<close>

fun computeLoop ::
  "nat \<Rightarrow> orientation list \<Rightarrow> orientation list \<Rightarrow> orientation list \<Rightarrow>
     arm_error + (real list \<times> real list \<times> euler_angles option list)" where
  "computeLoop i (so # ss) (eo # es) (wo # ws) =
     (if length (quat so) \<noteq> 4 then Inl (InvalidShoulderQuat i)
      else if length (quat eo) \<noteq> 4 then Inl (InvalidElbowQuat i)
      else if length (quat wo) \<noteq> 4 then Inl (InvalidWristQuat i)
      else
        (case computeLoop (i + 1) ss es ws of
           Inl err \<Rightarrow> Inl err
         | Inr (el, wr, sh) \<Rightarrow>
             Inr (relativeAngleDeg (toQuat (quat so)) (toQuat (quat eo)) # el,
                  relativeAngleDeg (toQuat (quat eo)) (toQuat (quat wo)) # wr,
                  eulerDeg (euler so) # sh)))"
| "computeLoop i ss es ws = Inr ([], [], [])"

text \<open>\<^verbatim>\<open>#compute\<close>; \<open>tm\<close> is \<^verbatim>\<open>s.times\<close>, already known to be an array.\<close>

definition compute ::
  "fusion_result \<Rightarrow> real list \<Rightarrow> fusion_result \<Rightarrow> fusion_result \<Rightarrow> arm_error + angle_series" where
  "compute s tm e w =
     (let n = min (min (length (orientations s)) (length (orientations e)))
                  (min (length (orientations w)) (length tm))
      in if \<not> n > 0 then Inl NoSamples
         else
           (case computeLoop 0 (take n (orientations s)) (take n (orientations e))
                   (take n (orientations w)) of
              Inl err \<Rightarrow> Inl err
            | Inr (el, wr, sh) \<Rightarrow>
                Inr \<lparr> elbow = el, wrist = wr, shoulder = sh, atimes = take n tm \<rparr>))"

text \<open>The private fields of \<^verbatim>\<open>ArmAngleAnalyser\<close>.\<close>

record analyser =
  a_shoulder :: "fusion_result option"
  a_elbow :: "fusion_result option"
  a_wrist :: "fusion_result option"
  a_angles :: "angle_series option"

definition newAnalyser :: analyser where
  "newAnalyser = \<lparr> a_shoulder = None, a_elbow = None, a_wrist = None, a_angles = None \<rparr>"

text \<open>
  \<^verbatim>\<open>setImuData\<close>: the analyser after the call, and the returned series or the error thrown. The
  \<^verbatim>\<open>Array.isArray\<close> checks of \<^verbatim>\<open>orientations\<close> hold by type.
\<close>

definition setImuData ::
  "analyser \<Rightarrow> fusion_result option \<Rightarrow> fusion_result option \<Rightarrow> fusion_result option \<Rightarrow>
     analyser \<times> (arm_error + angle_series)" where
  "setImuData an sh el wr =
     (case (sh, el, wr) of
        (Some s, Some e, Some w) \<Rightarrow>
          (case ftimes s of
             None \<Rightarrow> (an, Inl MissingTimes)
           | Some tm \<Rightarrow>
               (let an1 = an\<lparr> a_shoulder := Some s, a_elbow := Some e, a_wrist := Some w \<rparr>
                in case compute s tm e w of
                     Inl err \<Rightarrow> (an1, Inl err)
                   | Inr out \<Rightarrow> (an1\<lparr> a_angles := Some out \<rparr>, Inr out)))
      | _ \<Rightarrow> (an, Inl AllThreeMustBeSet))"

text \<open>
  The arithmetic of \<^verbatim>\<open>statsOf\<close> on JavaScript numbers: \<^verbatim>\<open>sum += v\<close>, the comparisons
  \<^verbatim>\<open>v < min\<close> and \<^verbatim>\<open>v > max\<close>, \<^verbatim>\<open>sum / arr.length\<close> and \<^verbatim>\<open>max - min\<close>. \<^verbatim>\<open>NaN\<close> propagates through
  the arithmetic and compares false with everything.
\<close>

fun num_add :: "num \<Rightarrow> num \<Rightarrow> num" where
  "num_add (Fin a) (Fin b) = Fin (a + b)"
| "num_add NaN n = NaN"
| "num_add n NaN = NaN"
| "num_add PInf NInf = NaN"
| "num_add NInf PInf = NaN"
| "num_add PInf n = PInf"
| "num_add NInf n = NInf"
| "num_add (Fin a) PInf = PInf"
| "num_add (Fin a) NInf = NInf"

fun lessNum :: "num \<Rightarrow> num \<Rightarrow> bool" where
  "lessNum (Fin a) (Fin b) = (a < b)"
| "lessNum NaN n = False"
| "lessNum n NaN = False"
| "lessNum PInf n = False"
| "lessNum n NInf = False"
| "lessNum NInf n = True"
| "lessNum (Fin a) PInf = True"

fun greaterNum :: "num \<Rightarrow> num \<Rightarrow> bool" where
  "greaterNum (Fin a) (Fin b) = (a > b)"
| "greaterNum NaN n = False"
| "greaterNum n NaN = False"
| "greaterNum NInf n = False"
| "greaterNum n PInf = False"
| "greaterNum PInf n = True"
| "greaterNum (Fin a) NInf = True"

fun num_diff :: "num \<Rightarrow> num \<Rightarrow> num" where
  "num_diff (Fin a) (Fin b) = Fin (a - b)"
| "num_diff NaN n = NaN"
| "num_diff n NaN = NaN"
| "num_diff PInf PInf = NaN"
| "num_diff NInf NInf = NaN"
| "num_diff PInf n = PInf"
| "num_diff NInf n = NInf"
| "num_diff (Fin a) PInf = NInf"
| "num_diff (Fin a) NInf = PInf"

text \<open>\<^verbatim>\<open>sum / arr.length\<close>; a zero length gives \<^verbatim>\<open>NaN\<close> or an infinity, as division by zero does.\<close>

fun num_div_len :: "num \<Rightarrow> nat \<Rightarrow> num" where
  "num_div_len (Fin a) n =
     (if n = 0 then (if a = 0 then NaN else if a > 0 then PInf else NInf)
      else Fin (a / real n))"
| "num_div_len v n = v"

record stats =
  st_mean :: num
  st_min :: num
  st_max :: num
  st_range :: num

text \<open>
  The loop of \<^verbatim>\<open>statsOf\<close> with its three running variables \<open>(sum, min, max)\<close>. The array may
  hold any JavaScript number.
\<close>

fun statsLoop :: "num list \<Rightarrow> num \<times> num \<times> num \<Rightarrow> num \<times> num \<times> num" where
  "statsLoop [] acc = acc"
| "statsLoop (v # vs) (sm, mn, mx) =
     statsLoop vs (num_add sm v, (if lessNum v mn then v else mn), (if greaterNum v mx then v else mx))"

definition statsOf :: "num list \<Rightarrow> stats" where
  "statsOf arr =
     (if arr = [] then \<lparr> st_mean = NaN, st_min = NaN, st_max = NaN, st_range = NaN \<rparr>
      else
        (let (sm, mn, mx) = statsLoop arr (Fin 0, PInf, NInf)
         in \<lparr> st_mean = num_div_len sm (length arr), st_min = mn, st_max = mx,
              st_range = num_diff mx mn \<rparr>))"

text \<open>
  \<^verbatim>\<open>getStatistics\<close>. The angle series of this model hold finite numbers, because its
  quaternions are lists of reals; they enter \<^verbatim>\<open>statsOf\<close> as such. A quaternion with a
  \<^verbatim>\<open>NaN\<close> component, which the analyser does not reject, is outside the model of the analyser
  but not outside that of \<^verbatim>\<open>statsOf\<close>.
\<close>

definition getStatistics :: "analyser \<Rightarrow> (stats \<times> stats) option" where
  "getStatistics an =
     (case a_angles an of
        None \<Rightarrow> None
      | Some out \<Rightarrow> Some (statsOf (map Fin (elbow out)), statsOf (map Fin (wrist out))))"

text \<open>
  \<^verbatim>\<open>ArmAngleUI.calculate\<close> up to the display: \<open>fusion\<close> is \<^verbatim>\<open>window.imuFusionData\<close> (an object
  keyed by IMU index whose entries may be \<^verbatim>\<open>null\<close>), the three indices are the selector values.
  The \<^verbatim>\<open>catch\<close> turns the error into an alert; here it is returned.
\<close>

definition calculate ::
  "(nat \<times> fusion_result option) list option \<Rightarrow> nat option \<Rightarrow> nat option \<Rightarrow> nat option \<Rightarrow>
     analyser \<Rightarrow> analyser \<times> (arm_error + (angle_series \<times> (stats \<times> stats) option))" where
  "calculate fusion sIdx eIdx wIdx an =
     (case (sIdx, eIdx, wIdx) of
        (Some si, Some ei, Some wi) \<Rightarrow>
          if \<not> distinct [si, ei, wi] then (an, Inl MustBeDifferent)
          else
            (case fusion of
               None \<Rightarrow> (an, Inl NoFusionData)
             | Some fu \<Rightarrow>
                 if fu = [] then (an, Inl NoFusionData)
                 else
                   (case map_of fu si of
                      Some (Some sData) \<Rightarrow>
                        (case map_of fu ei of
                           Some (Some eData) \<Rightarrow>
                             (case map_of fu wi of
                                Some (Some wData) \<Rightarrow>
                                  (case setImuData an (Some sData) (Some eData) (Some wData) of
                                     (an', Inl err) \<Rightarrow> (an', Inl err)
                                   | (an', Inr angles) \<Rightarrow> (an', Inr (angles, getStatistics an')))
                              | _ \<Rightarrow> (an, Inl NoWristData))
                         | _ \<Rightarrow> (an, Inl NoElbowData))
                    | _ \<Rightarrow> (an, Inl NoShoulderData)))
      | _ \<Rightarrow> (an, Inl SelectThreeFirst))"

section \<open>Fusion processor (fusion-processor.js)\<close>

subsection \<open>Header matching\<close>

text \<open>
  Headers are strings of 8-bit characters. \<^verbatim>\<open>normalize\<close> is
  \<^verbatim>\<open>String(s || '').trim().toLowerCase().replace(/[^a-z0-9]+/g, '_').replace(/^_+|_+$/g, '')\<close>.
\<close>

definition isSpaceChar :: "char \<Rightarrow> bool" where
  "isSpaceChar c = (c \<in> set [CHR 0x09, CHR 0x0A, CHR 0x0B, CHR 0x0C, CHR 0x0D, CHR 0x20, CHR 0xA0])"

definition trim :: "string \<Rightarrow> string" where
  "trim s = rev (dropWhile isSpaceChar (rev (dropWhile isSpaceChar s)))"

definition toLowerChar :: "char \<Rightarrow> char" where
  "toLowerChar c =
     (case map_of (zip ''ABCDEFGHIJKLMNOPQRSTUVWXYZ'' ''abcdefghijklmnopqrstuvwxyz'') c of
        Some l \<Rightarrow> l
      | None \<Rightarrow> c)"

definition isLowerAlnum :: "char \<Rightarrow> bool" where
  "isLowerAlnum c = (c \<in> set ''abcdefghijklmnopqrstuvwxyz0123456789'')"

text \<open>Every maximal run of other characters becomes one underscore; \<open>inRun\<close>: inside such a run.\<close>

fun squash :: "bool \<Rightarrow> string \<Rightarrow> string" where
  "squash inRun [] = []"
| "squash inRun (c # cs) =
     (if isLowerAlnum c then c # squash False cs
      else if inRun then squash True cs
      else CHR ''_'' # squash True cs)"

definition stripUnderscores :: "string \<Rightarrow> string" where
  "stripUnderscores s =
     rev (dropWhile (\<lambda>c. c = CHR ''_'') (rev (dropWhile (\<lambda>c. c = CHR ''_'') s)))"

definition normalize :: "string \<Rightarrow> string" where
  "normalize s = stripUnderscores (squash False (map toLowerChar (trim s)))"

datatype sensor = Acc | Gyro | Mag

datatype axis = AxisX | AxisY | AxisZ

fun candidates :: "sensor \<Rightarrow> axis \<Rightarrow> string list" where
  "candidates Acc AxisX = [''acc_x'', ''accel_x'', ''ax'', ''accelerometer_x'', ''accx'']"
| "candidates Acc AxisY = [''acc_y'', ''accel_y'', ''ay'', ''accelerometer_y'', ''accy'']"
| "candidates Acc AxisZ = [''acc_z'', ''accel_z'', ''az'', ''accelerometer_z'', ''accz'']"
| "candidates Gyro AxisX = [''gyro_x'', ''gx'', ''gyroscope_x'', ''gyrox'']"
| "candidates Gyro AxisY = [''gyro_y'', ''gy'', ''gyroscope_y'', ''gyroy'']"
| "candidates Gyro AxisZ = [''gyro_z'', ''gz'', ''gyroscope_z'', ''gyroz'']"
| "candidates Mag AxisX = [''mag_x'', ''mx'', ''magnetometer_x'', ''magx'']"
| "candidates Mag AxisY = [''mag_y'', ''my'', ''magnetometer_y'', ''magy'']"
| "candidates Mag AxisZ = [''mag_z'', ''mz'', ''magnetometer_z'', ''magz'']"

text \<open>\<^verbatim>\<open>Array.prototype.indexOf\<close>: the first position, \<open>None\<close> for \<open>-1\<close>.\<close>

fun indexOf :: "'a list \<Rightarrow> 'a \<Rightarrow> nat option" where
  "indexOf [] v = None"
| "indexOf (y # ys) v = (if y = v then Some 0 else map_option Suc (indexOf ys v))"

fun findIndex :: "string list \<Rightarrow> string list \<Rightarrow> nat option" where
  "findIndex normHeaders [] = None"
| "findIndex normHeaders (c # cs) =
     (case indexOf normHeaders (normalize c) of
        Some idx \<Rightarrow> Some idx
      | None \<Rightarrow> findIndex normHeaders cs)"

record axis_keys =
  kx :: "nat option"
  ky :: "nat option"
  kz :: "nat option"

definition findAxisKeys :: "string list \<Rightarrow> sensor \<Rightarrow> axis_keys" where
  "findAxisKeys headers sn =
     (let normHeaders = map normalize headers
      in \<lparr> kx = findIndex normHeaders (candidates sn AxisX),
           ky = findIndex normHeaders (candidates sn AxisY),
           kz = findIndex normHeaders (candidates sn AxisZ) \<rparr>)"

definition hasAxisData :: "string list \<Rightarrow> sensor \<Rightarrow> bool" where
  "hasAxisData headers sn =
     (let keys = findAxisKeys headers sn in kx keys \<noteq> None \<and> ky keys \<noteq> None \<and> kz keys \<noteq> None)"

subsection \<open>Axis data, filtering and calibration\<close>

text \<open>
  Sensor cells are modelled by their numeric value: a row is a list of reals. A cell that is
  missing reads as \<open>0\<close> (\<^verbatim>\<open>Number(r[key] || 0)\<close>); cells whose text is not numeric are outside
  this model.
\<close>

definition numAt :: "real list \<Rightarrow> nat option \<Rightarrow> real" where
  "numAt r k = (case k of None \<Rightarrow> 0 | Some i \<Rightarrow> if i < length r then r ! i else 0)"

record axis_data =
  dx :: "real list"
  dy :: "real list"
  dz :: "real list"

definition extractAxisData :: "real list list \<Rightarrow> string list \<Rightarrow> sensor \<Rightarrow> axis_data" where
  "extractAxisData rows headers sn =
     (let keys = findAxisKeys headers sn
      in \<lparr> dx = map (\<lambda>r. numAt r (kx keys)) rows,
           dy = map (\<lambda>r. numAt r (ky keys)) rows,
           dz = map (\<lambda>r. numAt r (kz keys)) rows \<rparr>)"

text \<open>
  The loop of \<^verbatim>\<open>highPassFilter\<close> after its first element: \<open>po\<close> is \<^verbatim>\<open>filtered[i - 1]\<close>, \<open>pd\<close> is
  \<^verbatim>\<open>data[i - 1]\<close>.
\<close>

fun hpLoop :: "real \<Rightarrow> real \<Rightarrow> real \<Rightarrow> real list \<Rightarrow> real list" where
  "hpLoop alpha po pd [] = []"
| "hpLoop alpha po pd (d # ds) =
     (let y = alpha * (po + d - pd) in y # hpLoop alpha y d ds)"

definition highPassFilter :: "real list \<Rightarrow> real \<Rightarrow> real \<Rightarrow> real list" where
  "highPassFilter data sr cutoffFreq =
     (let RC = 1 / (cutoffFreq * 2 * pi);
          dt = 1 / sr;
          alpha = RC / (RC + dt)
      in 0 # (case data of [] \<Rightarrow> [] | d0 # ds \<Rightarrow> hpLoop alpha 0 d0 ds))"

definition removeGravityBias :: "axis_data \<Rightarrow> real \<Rightarrow> axis_data" where
  "removeGravityBias accData sr =
     (let cutoffFreq = 1 / 2
      in \<lparr> dx = highPassFilter (dx accData) sr cutoffFreq,
           dy = highPassFilter (dy accData) sr cutoffFreq,
           dz = highPassFilter (dz accData) sr cutoffFreq \<rparr>)"

text \<open>
  \<^verbatim>\<open>median\<close> and \<^verbatim>\<open>mean\<close>. On an empty array JavaScript yields \<^verbatim>\<open>NaN\<close> for both; the processor
  rejects empty input before it calls them. The calibrations built on them are written in
  real arithmetic, whereas in doubles every sum, quotient, product and square root is rounded
  and may overflow: a calibrated stream of this model has the values of the program's only up
  to rounding, and no statement of this theory is about those values.
\<close>

definition median :: "real list \<Rightarrow> real" where
  "median arr =
     (let sorted = sort arr; mid = length sorted div 2
      in if length sorted mod 2 \<noteq> 0 then sorted ! mid
         else (sorted ! (mid - 1) + sorted ! mid) / 2)"

definition mean :: "real list \<Rightarrow> real" where
  "mean arr = fold (\<lambda>v sm. sm + v) arr 0 / real (length arr)"

definition calibrateMagnetometer :: "axis_data \<Rightarrow> axis_data" where
  "calibrateMagnetometer magData =
     (let biasX = median (dx magData);
          biasY = median (dy magData);
          biasZ = median (dz magData)
      in \<lparr> dx = map (\<lambda>v. v - biasX) (dx magData),
           dy = map (\<lambda>v. v - biasY) (dy magData),
           dz = map (\<lambda>v. v - biasZ) (dz magData) \<rparr>)"

text \<open>The per-sample magnitudes, indexed over the x array as in the source.\<close>

definition magnitudes :: "axis_data \<Rightarrow> real list" where
  "magnitudes d =
     map (\<lambda>i. sqrt (dx d ! i * dx d ! i + dy d ! i * dy d ! i + dz d ! i * dz d ! i))
         [0..<length (dx d)]"

definition calibrateAccelerometer :: "axis_data \<Rightarrow> axis_data" where
  "calibrateAccelerometer accData =
     (let avgMagnitude = mean (magnitudes accData);
          sc = (if avgMagnitude > 0 then 1 / avgMagnitude else 1)
      in \<lparr> dx = map (\<lambda>v. v * sc) (dx accData),
           dy = map (\<lambda>v. v * sc) (dy accData),
           dz = map (\<lambda>v. v * sc) (dz accData) \<rparr>)"

subsection \<open>The attitude filter and \<^verbatim>\<open>process\<close>\<close>

text \<open>
  The AHRS filters come from an external script (\<^verbatim>\<open>ahrs_min.js\<close>), so they are a parameter:
  the two constructors (\<open>None\<close> when the global \<^verbatim>\<open>Madgwick\<close> or \<^verbatim>\<open>Mahony\<close> is undefined), the
  update of a filter state by one sample, and the quaternion read back from it.
\<close>

record filter_input =
  in_gx :: real
  in_gy :: real
  in_gz :: real
  in_ax :: real
  in_ay :: real
  in_az :: real
  in_mx :: real
  in_my :: real
  in_mz :: real
  in_dt :: real

record 'f ahrs =
  newMadgwick :: "(real \<Rightarrow> real \<Rightarrow> 'f) option"
  newMahony :: "(real \<Rightarrow> 'f) option"
  update :: "'f \<Rightarrow> filter_input \<Rightarrow> 'f"
  getQuaternion :: "'f \<Rightarrow> real list"

datatype fusion_error =
    NoImuData
  | NineDofRequired
  | AhrsNotLoaded
  | MahonyNotDefined
  | UnknownAlgorithm string

definition createFilter :: "'f ahrs \<Rightarrow> string \<Rightarrow> real \<Rightarrow> real \<Rightarrow> fusion_error + 'f" where
  "createFilter lib alg sr beta =
     (case newMadgwick lib of
        None \<Rightarrow> Inl AhrsNotLoaded
      | Some mk \<Rightarrow>
          if alg = ''madgwick'' then Inr (mk (1000 / sr) beta)
          else if alg = ''mahony'' then
            (case newMahony lib of
               None \<Rightarrow> Inl MahonyNotDefined
             | Some mh \<Rightarrow> Inr (mh (1000 / sr)))
          else if alg = ''complementary'' then Inr (mk (1000 / sr) beta)
          else Inl (UnknownAlgorithm alg))"

text \<open>\<^verbatim>\<open>Math.atan2\<close> and \<^verbatim>\<open>Math.sign\<close> on finite arguments.\<close>

definition atan2 :: "real \<Rightarrow> real \<Rightarrow> real" where
  "atan2 y x =
     (if x > 0 then arctan (y / x)
      else if x < 0 then (if y \<ge> 0 then arctan (y / x) + pi else arctan (y / x) - pi)
      else if y > 0 then pi / 2
      else if y < 0 then - (pi / 2)
      else 0)"

definition quaternionToEuler :: "real list \<Rightarrow> euler_angles" where
  "quaternionToEuler q =
     (case toQuat q of (w, x, y, z) \<Rightarrow>
        let sinr_cosp = 2 * (w * x + y * z);
            cosr_cosp = 1 - 2 * (x * x + y * y);
            sinp = 2 * (w * y - z * x);
            siny_cosp = 2 * (w * z + x * y);
            cosy_cosp = 1 - 2 * (y * y + z * z)
        in \<lparr> roll = atan2 sinr_cosp cosr_cosp,
             pitch = (if \<bar>sinp\<bar> \<ge> 1 then sgn sinp * pi / 2 else arcsin sinp),
             yaw = atan2 siny_cosp cosy_cosp \<rparr>)"

definition quaternionToRotationMatrix :: "real list \<Rightarrow> real list list" where
  "quaternionToRotationMatrix q =
     (case toQuat q of (w, x, y, z) \<Rightarrow>
        [[1 - 2 * (y * y + z * z), 2 * (x * y - w * z), 2 * (x * z + w * y)],
         [2 * (x * y + w * z), 1 - 2 * (x * x + z * z), 2 * (y * z - w * x)],
         [2 * (x * z - w * y), 2 * (y * z + w * x), 1 - 2 * (x * x + y * y)]])"

text \<open>
  The arguments of the \<open>i\<close>-th call \<^verbatim>\<open>filter.update(gx, gy, gz, ax, ay, az, mx, my, mz, dt)\<close>.
  All nine arrays have one entry per row.
\<close>

definition updateArgs :: "axis_data \<Rightarrow> axis_data \<Rightarrow> axis_data \<Rightarrow> bool \<Rightarrow> real \<Rightarrow> nat \<Rightarrow> filter_input" where
  "updateArgs accCal gyroData magCal gyroIsDegrees dt i =
     \<lparr> in_gx = (if gyroIsDegrees then dx gyroData ! i * pi / 180 else dx gyroData ! i),
       in_gy = (if gyroIsDegrees then dy gyroData ! i * pi / 180 else dy gyroData ! i),
       in_gz = (if gyroIsDegrees then dz gyroData ! i * pi / 180 else dz gyroData ! i),
       in_ax = dx accCal ! i, in_ay = dy accCal ! i, in_az = dz accCal ! i,
       in_mx = dx magCal ! i, in_my = dy magCal ! i, in_mz = dz magCal ! i,
       in_dt = dt \<rparr>"

text \<open>The sample loop: the filter state is threaded through, one orientation per sample.\<close>

fun runFilter :: "'f ahrs \<Rightarrow> 'f \<Rightarrow> filter_input list \<Rightarrow> orientation list" where
  "runFilter lib f [] = []"
| "runFilter lib f (a # as) =
     (let f' = update lib f a;
          q = getQuaternion lib f'
      in \<lparr> quat = q, euler = Some (quaternionToEuler q), rotMatrix = quaternionToRotationMatrix q \<rparr>
           # runFilter lib f' as)"

text \<open>The sequence of update calls that \<^verbatim>\<open>process\<close> makes once its checks have passed.\<close>

definition processInputs :: "real list list \<Rightarrow> string list \<Rightarrow> real \<Rightarrow> filter_input list" where
  "processInputs rows headers sr =
     (let accData = extractAxisData rows headers Acc;
          gyroData = extractAxisData rows headers Gyro;
          magData = extractAxisData rows headers Mag;
          filteredAccData = removeGravityBias accData sr;
          gyroSample = \<bar>dx gyroData ! 0\<bar> + \<bar>dy gyroData ! 0\<bar> + \<bar>dz gyroData ! 0\<bar>;
          gyroIsDegrees = (gyroSample > 10);
          magCal = calibrateMagnetometer magData;
          accCal = calibrateAccelerometer filteredAccData;
          dt = 1 / sr
      in map (updateArgs accCal gyroData magCal gyroIsDegrees dt) [0..<length rows])"

text \<open>
  \<^verbatim>\<open>process(options)\<close>. An omitted option is \<open>None\<close> and takes its default
  (\<^verbatim>\<open>sampleRate = 100\<close>, \<^verbatim>\<open>algorithm = 'madgwick'\<close>, \<^verbatim>\<open>beta = 0.1\<close>).
\<close>

definition process ::
  "'f ahrs \<Rightarrow> real list list \<Rightarrow> string list \<Rightarrow> real list option \<Rightarrow> real option \<Rightarrow>
     string option \<Rightarrow> real option \<Rightarrow> fusion_error + fusion_result" where
  "process lib rows headers timeSeconds sampleRateOpt algorithmOpt betaOpt =
     (let sr = (case sampleRateOpt of None \<Rightarrow> 100 | Some r \<Rightarrow> r);
          alg = (case algorithmOpt of None \<Rightarrow> ''madgwick'' | Some a \<Rightarrow> a);
          beta = (case betaOpt of None \<Rightarrow> 1 / 10 | Some b \<Rightarrow> b)
      in if rows = [] then Inl NoImuData
         else if \<not> hasAxisData headers Acc \<or> \<not> hasAxisData headers Gyro \<or> \<not> hasAxisData headers Mag
         then Inl NineDofRequired
         else
           (case createFilter lib alg sr beta of
              Inl err \<Rightarrow> Inl err
            | Inr flt \<Rightarrow>
                Inr \<lparr> ftimes = timeSeconds,
                      orientations = runFilter lib flt (processInputs rows headers sr),
                      algorithm = alg,
                      sampleRate = sr \<rparr>))"

subsection \<open>\<^verbatim>\<open>FusionManager.processFusion\<close>\<close>







section \<open>Auxiliary notions for the statements\<close>

subsection \<open>Cursor invariant and sample sessions\<close>

text \<open>The cursor lies within its current bounds.\<close>

definition cursorInRange :: "viewer \<Rightarrow> bool" where
  "cursorInRange st = (cursor_minX st \<le> cursor_x st \<and> cursor_x st \<le> cursor_maxX st)"

text \<open>
  The invariant carried along every run: besides the cursor range, the lower bound, the
  full-range maximum and the marked T1/T2 (former cursor positions) are never negative.
\<close>

definition nonNeg :: "real option \<Rightarrow> bool" where
  "nonNeg a = (case a of None \<Rightarrow> True | Some v \<Rightarrow> 0 \<le> v)"

definition viewerInv :: "viewer \<Rightarrow> bool" where
  "viewerInv st =
     (cursorInRange st \<and> 0 \<le> cursor_minX st \<and> 0 \<le> fullRangeMaxX st \<and> nonNeg (t1 st) \<and> nonNeg (t2 st))"

text \<open>
  A small recording whose time column is not increasing over its whole length: its raw span
  is \<open>0\<close>, so the detected scale is \<open>1\<close> and the cursor range becomes \<open>[0, 20]\<close>.
\<close>

definition demoRows :: "row list" where
  "demoRows = [[NumText 0], [NumText 20], [NumText 0]]"

text \<open>Load it, mark T1 at 3 s and T2 at 1 s.\<close>

definition tfDemo :: "event list" where
  "tfDemo = [RenderImu (Some (demoRows, 0)), SetCursor (Fin 3), MarkT1, SetCursor (Fin 1), MarkT2]"

text \<open>Load it, mark the video at 10 s and the IMU cursor at 7.5 s.\<close>

definition syncDemo :: "event list" where
  "syncDemo = [RenderImu (Some (demoRows, 0)), VideoTime (Fin 10), MarkVideo, SetCursor (Fin (15 / 2)),
     MarkImu]"

subsection \<open>Time scale detection and normalization\<close>

text \<open>The finite time values of a column, in row order.\<close>

definition finiteTimes :: "row list \<Rightarrow> nat \<Rightarrow> real list" where
  "finiteTimes rows k = List.map_filter (\<lambda>r. cellNum r k) rows"

text \<open>The positive differences between neighbours of a sequence.\<close>

definition posDeltas :: "real list \<Rightarrow> real list" where
  "posDeltas vs = filter (\<lambda>d. d > 0) (map (\<lambda>(a, b). b - a) (zip vs (tl vs)))"










subsection \<open>Quaternions and the analyser\<close>

text \<open>Unit quaternions, and the quaternion with every component negated.\<close>

definition unitQuat :: "quaternion \<Rightarrow> bool" where
  "unitQuat q = (case q of (w, x, y, z) \<Rightarrow> w * w + x * x + y * y + z * z = 1)"

definition negQuat :: "quaternion \<Rightarrow> quaternion" where
  "negQuat q = (case q of (w, x, y, z) \<Rightarrow> (- w, - x, - y, - z))"

text \<open>
  The number of samples the analyser uses, whether the first \<open>n\<close> orientations of a stream
  carry four-component quaternions, and the quaternion of sample \<open>i\<close>.
\<close>

definition commonLength :: "fusion_result \<Rightarrow> real list \<Rightarrow> fusion_result \<Rightarrow> fusion_result \<Rightarrow> nat" where
  "commonLength s tm e w =
     min (min (length (orientations s)) (length (orientations e)))
         (min (length (orientations w)) (length tm))"

definition quatsOk :: "nat \<Rightarrow> fusion_result \<Rightarrow> bool" where
  "quatsOk n f = list_all (\<lambda>ori. length (quat ori) = 4) (take n (orientations f))"

definition quatAt :: "fusion_result \<Rightarrow> nat \<Rightarrow> quaternion" where
  "quatAt f i = toQuat (quat (orientations f ! i))"

text \<open>The statistics that are all \<^verbatim>\<open>NaN\<close>.\<close>

definition nanStats :: stats where
  "nanStats = \<lparr> st_mean = NaN, st_min = NaN, st_max = NaN, st_range = NaN \<rparr>"

text \<open>
  Sample streams: a shoulder stream of three samples at rest, an elbow stream of two samples
  (the first turned by half a turn about x), a wrist stream of three samples, and a stream
  without samples.
\<close>

definition mkOri :: "real list \<Rightarrow> orientation" where
  "mkOri q = \<lparr> quat = q, euler = None, rotMatrix = [] \<rparr>"

definition mkFusion :: "real list \<Rightarrow> real list list \<Rightarrow> fusion_result" where
  "mkFusion tm qs =
     \<lparr> ftimes = Some tm, orientations = map mkOri qs, algorithm = ''madgwick'', sampleRate = 100 \<rparr>"

definition c3Shoulder :: fusion_result where
  "c3Shoulder = mkFusion [0, 1, 2] [[1, 0, 0, 0], [1, 0, 0, 0], [1, 0, 0, 0]]"

definition c3Elbow :: fusion_result where
  "c3Elbow = mkFusion [0, 1] [[0, 1, 0, 0], [1, 0, 0, 0]]"

definition c3Wrist :: fusion_result where
  "c3Wrist = mkFusion [0, 1, 2] [[0, 1, 0, 0], [0, 1, 0, 0], [0, 0, 1, 0]]"

definition emptyFusion :: fusion_result where
  "emptyFusion = mkFusion [] []"

subsection \<open>Fusion processor\<close>

text \<open>The three algorithm names that \<^verbatim>\<open>createFilter\<close> accepts, and full 9-DOF headers.\<close>

definition knownAlgorithm :: "string \<Rightarrow> bool" where
  "knownAlgorithm a = (a = ''madgwick'' \<or> a = ''mahony'' \<or> a = ''complementary'')"

definition has9Dof :: "string list \<Rightarrow> bool" where
  "has9Dof headers = (hasAxisData headers Acc \<and> hasAxisData headers Gyro \<and> hasAxisData headers Mag)"



text \<open>
  A stand-in for the AHRS script that records the \<^verbatim>\<open>dt\<close> of every update and reports the last
  one as the first quaternion component; the same with both constructors undefined.
\<close>

definition recLib :: "real list ahrs" where
  "recLib = \<lparr> newMadgwick = Some (\<lambda>sampleInterval beta. []),
              newMahony = Some (\<lambda>sampleInterval. []),
              update = (\<lambda>f a. f @ [in_dt a]),
              getQuaternion = (\<lambda>f. [last f, 0, 0, 0]) \<rparr>"

definition noLib :: "real list ahrs" where
  "noLib = recLib\<lparr> newMadgwick := None, newMahony := None \<rparr>"

text \<open>
  Headers in mixed case and with mixed separators, headers without a magnetometer, three
  samples at rest, the options a caller passes without a sample rate, and the result expected
  for them.
\<close>

definition demoHeaders :: "string list" where
  "demoHeaders = [''Time'', ''Acc-X'', ''ACC Y'', '' acc_z '', ''GyroX'', ''gyro.y'', ''GZ'',
                  ''Mag X'', ''magnetometer_y'', ''MZ'']"

definition noMagHeaders :: "string list" where
  "noMagHeaders = [''time'', ''ax'', ''ay'', ''az'', ''gx'', ''gy'', ''gz'']"

definition demoSamples :: "real list list" where
  "demoSamples = [[0, 0, 0, 1, 0, 0, 0, 1, 0, 0],
                  [1 / 100, 0, 0, 1, 0, 0, 0, 1, 0, 0],
                  [3 / 100, 0, 0, 1, 0, 0, 0, 1, 0, 0]]"




section \<open>Properties\<close>

subsection \<open>Cursor bounds and time sync\<close>

lemma clamp_in_range: "a \<le> b \<Longrightarrow> a \<le> clamp n a b \<and> clamp n a b \<le> b"
  by (cases n) auto

lemma rewriteRows_maxT_ge: "mt \<le> snd (snd (rewriteRows k t0r sc rows (mr, mt)))"
proof (induction rows arbitrary: mr mt)
  case Nil
  then show ?case by simp
next
  case (Cons r rs)
  show ?case
  proof (cases "cellNum r k")
    case None
    then show ?thesis using Cons.IH [where mr=mr and mt=mt] by (simp add: case_prod_unfold Let_def)
  next
    case (Some tRaw)
    let ?mr = "if tRaw - t0r > mr then tRaw - t0r else mr"
    let ?mt = "if (tRaw - t0r) * sc > mt then (tRaw - t0r) * sc else mt"
    have "?mt \<le> snd (snd (rewriteRows k t0r sc rs (?mr, ?mt)))" by (rule Cons.IH)
    moreover have "mt \<le> ?mt" by simp
    ultimately show ?thesis using Some by (simp add: case_prod_unfold Let_def)
  qed
qed

lemma normalize_maxT_nonneg: "0 \<le> maxT (snd (normalizeTimeColumnInPlace rows ti))"
  using rewriteRows_maxT_ge [of 0 _ _ _ rows 0]
  by (auto simp: normalizeTimeColumnInPlace_def norm_none_def Let_def case_prod_unfold
           split: option.splits)

lemma inv_moveCursor: "viewerInv st \<Longrightarrow> viewerInv (moveCursor x st)"
  using clamp_in_range [of "cursor_minX st" "cursor_maxX st"]
  by (simp add: viewerInv_def cursorInRange_def moveCursor_def)

lemma inv_imuCursorChanged: "viewerInv st \<Longrightarrow> viewerInv (imuCursorChanged st)"
  by (simp add: viewerInv_def cursorInRange_def imuCursorChanged_def canFollow_def split: option.splits)

lemma inv_push: "viewerInv st \<Longrightarrow> viewerInv (pushVideoTimeToImu st)"
  by (auto simp: pushVideoTimeToImu_def canFollow_def inv_moveCursor split: option.splits)

lemma inv_fields:
  "viewerInv (st\<lparr>video := a\<rparr>) = viewerInv st"
  "viewerInv (st\<lparr>followVideo := b\<rparr>) = viewerInv st"
  "viewerInv (st\<lparr>followEnabled := b\<rparr>) = viewerInv st"
  "viewerInv (st\<lparr>syncOffset := c\<rparr>) = viewerInv st"
  "viewerInv (st\<lparr>offset := c\<rparr>) = viewerInv st"
  "viewerInv (st\<lparr>videoMarkerT := c\<rparr>) = viewerInv st"
  "viewerInv (st\<lparr>marker_x := c\<rparr>) = viewerInv st"
  "viewerInv (st\<lparr>tf_t1 := c\<rparr>) = viewerInv st"
  "viewerInv (st\<lparr>tf_t2 := c\<rparr>) = viewerInv st"
  "viewerInv (st\<lparr>tf_active := b\<rparr>) = viewerInv st"
  "viewerInv (st\<lparr>tf_start := r\<rparr>) = viewerInv st"
  "viewerInv (st\<lparr>tf_end := r\<rparr>) = viewerInv st"
  by (simp_all add: viewerInv_def cursorInRange_def)

lemma inv_setFollow: "viewerInv st \<Longrightarrow> viewerInv (setFollowVideoMode b st)"
  by (simp add: setFollowVideoMode_def inv_push inv_fields)

lemma inv_timeSyncChanged: "viewerInv st \<Longrightarrow> viewerInv (timeSyncChanged st)"
  by (simp add: timeSyncChanged_def inv_push inv_fields)

lemma inv_setMarkerX: "viewerInv st \<Longrightarrow> viewerInv (setMarkerX m st)"
  by (cases "(m, st)" rule: setMarkerX.cases) (simp_all add: inv_fields)

lemma inv_resetZoom: "viewerInv st \<Longrightarrow> viewerInv (resetZoomToFullRange st)"
  using clamp_in_range [of 0 "fullRangeMaxX st"]
  by (simp add: resetZoomToFullRange_def viewerInv_def cursorInRange_def Let_def)

lemma inv_timeframeApplied:
  "viewerInv st \<Longrightarrow> 0 \<le> a \<Longrightarrow> 0 \<le> b \<Longrightarrow> viewerInv (timeframeApplied a b st)"
  using clamp_in_range [of "min a b" "max a b"]
  by (simp add: timeframeApplied_def viewerInv_def cursorInRange_def Let_def)

lemma inv_timeframeMarked: "viewerInv (timeframeMarked st) = viewerInv st"
  by (simp add: timeframeMarked_def inv_fields)

lemma inv_timeframeReset: "viewerInv st \<Longrightarrow> viewerInv (timeframeReset st)"
  by (simp add: timeframeReset_def inv_resetZoom inv_fields)

lemma inv_clearMarks:
  "viewerInv st \<Longrightarrow> viewerInv (st\<lparr>t1 := None\<rparr>)"
  "viewerInv st \<Longrightarrow> viewerInv (st\<lparr>t2 := None\<rparr>)"
  "viewerInv st \<Longrightarrow> viewerInv (st\<lparr>t1 := Some (cursor_x st)\<rparr>)"
  "viewerInv st \<Longrightarrow> viewerInv (st\<lparr>t2 := Some (cursor_x st)\<rparr>)"
  by (simp_all add: viewerInv_def cursorInRange_def nonNeg_def)

lemma step_inv: "viewerInv st \<Longrightarrow> viewerInv (step ev st)"
proof (cases ev)
  case (SetCursor x)
  then show "viewerInv st \<Longrightarrow> ?thesis"
    by (simp add: setImuCursorX_def inv_imuCursorChanged inv_moveCursor)
next
  case (VideoTime t)
  then show "viewerInv st \<Longrightarrow> ?thesis"
    by (simp add: videoTimeUpdate_def inv_push inv_fields split: option.splits)
next
  case (ClickFollow b)
  then show "viewerInv st \<Longrightarrow> ?thesis"
    by (simp add: clickFollow_def inv_setFollow)
next
  case MarkVideo
  then show "viewerInv st \<Longrightarrow> ?thesis"
    by (simp add: markVideo_def inv_fields split: option.splits num.splits)
next
  case MarkImu
  then show "viewerInv st \<Longrightarrow> ?thesis"
    by (simp add: markImu_def inv_fields)
next
  case ComputeOffset
  then show "viewerInv st \<Longrightarrow> ?thesis"
    by (simp add: computeOffset_def inv_timeSyncChanged inv_setFollow inv_fields
          split: option.splits)
next
  case MarkT1
  then show "viewerInv st \<Longrightarrow> ?thesis"
    by (simp add: markT1_def inv_timeframeMarked inv_clearMarks)
next
  case MarkT2
  then show "viewerInv st \<Longrightarrow> ?thesis"
    by (simp add: markT2_def inv_timeframeMarked inv_clearMarks)
next
  case ResetT1T2
  then show "viewerInv st \<Longrightarrow> ?thesis"
    by (simp add: resetT1T2_def inv_timeframeReset inv_clearMarks)
next
  case ApplyTimeframe
  show "viewerInv st \<Longrightarrow> ?thesis"
  proof -
    assume inv: "viewerInv st"
    show ?thesis
    proof (cases "t1 st")
      case None
      then show ?thesis using inv ApplyTimeframe by (simp add: applyTimeframe_def)
    next
      case A: (Some a)
      show ?thesis
      proof (cases "t2 st")
        case None
        then show ?thesis using inv ApplyTimeframe A by (simp add: applyTimeframe_def)
      next
        case (Some b)
        have "0 \<le> a" "0 \<le> b" using inv A Some by (simp_all add: viewerInv_def nonNeg_def)
        then have "0 \<le> min a b" "0 \<le> max a b" by simp_all
        then show ?thesis
          using inv ApplyTimeframe A Some by (simp add: applyTimeframe_def inv_timeframeApplied)
      qed
    qed
  qed
next
  case ClearAll
  then show "viewerInv st \<Longrightarrow> ?thesis"
    by (simp add: clearAll_def Let_def inv_timeSyncChanged inv_setFollow inv_fields
          inv_timeframeReset inv_clearMarks)
next
  case (RenderImu csv)
  then show "viewerInv st \<Longrightarrow> ?thesis"
    using normalize_maxT_nonneg
    by (auto simp: viewerInv_def renderImu_def cursorInRange_def Let_def split: option.splits)
qed

lemma run_inv: "viewerInv st \<Longrightarrow> viewerInv (run evs st)"
  unfolding run_def by (induction evs arbitrary: st) (simp_all add: step_inv)

lemma init_inv: "viewerInv (initViewer v)"
  by (simp add: viewerInv_def cursorInRange_def initViewer_def nonNeg_def)

lemma reachable_inv: "viewerInv (run evs (initViewer v))"
  by (rule run_inv [OF init_inv])

lemma clamp_id: "a \<le> v \<Longrightarrow> v \<le> b \<Longrightarrow> clamp (Fin v) a b = v"
  by simp

text \<open>
  Claim C9. In every state that a run of events reaches from the initial viewer, the IMU cursor
  lies within \<open>[minX, maxX]\<close>. Setting the cursor stores the input clamped into the current
  bounds. \<open>applyTimeframe\<close> acts only when T1 and T2 are both set and distinct; it then installs
  \<open>[min t1 t2, max t1 t2]\<close> as the cursor range and clamps the cursor into it; otherwise it
  leaves the state as it is.
\<close>

theorem imu_cursor_stays_in_bounds:
  "cursorInRange (run evs (initViewer v))
   \<and> cursor_x (setImuCursorX x (run evs (initViewer v)))
       = clamp (orZero x) (cursor_minX (run evs (initViewer v))) (cursor_maxX (run evs (initViewer v)))
   \<and> cursorInRange (setImuCursorX x (run evs (initViewer v)))
   \<and> (canApplyTimeframe st \<longrightarrow>
        (\<exists>a b. t1 st = Some a \<and> t2 st = Some b \<and> a \<noteq> b
           \<and> cursor_minX (applyTimeframe st) = min a b
           \<and> cursor_maxX (applyTimeframe st) = max a b
           \<and> cursor_x (applyTimeframe st) = clamp (Fin (cursor_x st)) (min a b) (max a b))
        \<and> cursorInRange (applyTimeframe st))
   \<and> (\<not> canApplyTimeframe st \<longrightarrow> applyTimeframe st = st)"
proof -
  let ?st = "run evs (initViewer v)"
  have a: "cursorInRange ?st"
    using reachable_inv [of evs v] by (simp add: viewerInv_def)
  have b: "cursor_x (setImuCursorX x ?st) = clamp (orZero x) (cursor_minX ?st) (cursor_maxX ?st)"
    by (simp add: setImuCursorX_def imuCursorChanged_def canFollow_def moveCursor_def split: option.splits)
  have "viewerInv (step (SetCursor x) ?st)" by (rule step_inv [OF reachable_inv])
  then have c: "cursorInRange (setImuCursorX x ?st)" by (simp add: viewerInv_def)
  have d: "canApplyTimeframe st \<longrightarrow>
        (\<exists>a b. t1 st = Some a \<and> t2 st = Some b \<and> a \<noteq> b
           \<and> cursor_minX (applyTimeframe st) = min a b
           \<and> cursor_maxX (applyTimeframe st) = max a b
           \<and> cursor_x (applyTimeframe st) = clamp (Fin (cursor_x st)) (min a b) (max a b))
        \<and> cursorInRange (applyTimeframe st)"
    using clamp_in_range
    by (auto simp: canApplyTimeframe_def applyTimeframe_def timeframeApplied_def Let_def
          cursorInRange_def split: option.splits)
  have e: "\<not> canApplyTimeframe st \<longrightarrow> applyTimeframe st = st"
    by (auto simp: canApplyTimeframe_def applyTimeframe_def split: option.splits)
  from a b c d e show ?thesis by blast
qed

lemmas op_defs = setImuCursorX_def moveCursor_def imuCursorChanged_def canFollow_def
  pushVideoTimeToImu_def videoTimeUpdate_def setFollowVideoMode_def clickFollow_def
  timeSyncChanged_def markVideo_def markImu_def computeOffset_def resetZoomToFullRange_def
  timeframeMarked_def timeframeReset_def timeframeApplied_def markT1_def markT2_def
  resetT1T2_def canApplyTimeframe_def applyTimeframe_def clearAll_def renderImu_def

lemmas viewer_defs = run_def initViewer_def setImuCursorX_def moveCursor_def imuCursorChanged_def
  canFollow_def pushVideoTimeToImu_def videoTimeUpdate_def setFollowVideoMode_def clickFollow_def
  timeSyncChanged_def markVideo_def markImu_def computeOffset_def resetZoomToFullRange_def
  timeframeMarked_def timeframeReset_def timeframeApplied_def markT1_def markT2_def
  resetT1T2_def canApplyTimeframe_def applyTimeframe_def clearAll_def renderImu_def

lemmas detect_defs = normalizeTimeColumnInPlace_def detectTimeScaleFactor_def scanRow_def scan0_def
  cellNum_def scaleOk_def DT_MIN_S_def DT_MAX_S_def RATE_MIN_def RATE_MAX_def norm_none_def

lemma demo_norm: "snd (normalizeTimeColumnInPlace demoRows (Some 0)) =
   \<lparr> t0 = Some 0, maxT = 20, t0Raw = Some 0, maxTRaw = 20, scale = Some 1 \<rparr>"
  by (simp add: demoRows_def detect_defs)

lemma tfDemo_state:
  "run tfDemo (initViewer None) =
     \<lparr> cursor_x = 1, cursor_minX = 0, cursor_maxX = 20, marker_x = None, fullRangeMaxX = 20,
       tf_t1 = Some 3, tf_t2 = Some 1, tf_active = False, tf_start = 0, tf_end = 0,
       videoMarkerT = None, offset = None, t1 = Some 3, t2 = Some 1,
       followEnabled = False, followVideo = False, syncOffset = None, video = None \<rparr>"
  by (simp add: tfDemo_def viewer_defs demo_norm)

theorem imu_cursor_stays_in_bounds_witness:
  "canApplyTimeframe (run tfDemo (initViewer None))
   \<and> cursor_minX (applyTimeframe (run tfDemo (initViewer None))) = 1
   \<and> cursor_maxX (applyTimeframe (run tfDemo (initViewer None))) = 3
   \<and> cursorInRange (applyTimeframe (run tfDemo (initViewer None)))
   \<and> cursor_x (setImuCursorX (Fin 25) (run tfDemo (initViewer None))) = 20
   \<and> cursorInRange (run tfDemo (initViewer None))
   \<and> \<not> canApplyTimeframe (initViewer None)
   \<and> applyTimeframe (initViewer None) = initViewer None"
  using imu_cursor_stays_in_bounds [of tfDemo None "Fin 25" "run tfDemo (initViewer None)"]
    imu_cursor_stays_in_bounds [of tfDemo None "Fin 25" "initViewer None"]
  unfolding tfDemo_state by (simp add: op_defs initViewer_def)

text \<open>
  Claim C6. With both markers set, \<open>computeOffset\<close> stores \<open>offset = videoMarker - imuMarker\<close>
  (and publishes it, leaving Manual mode on); with a marker unset it changes nothing.
  \<open>markVideo\<close> captures a finite playhead and \<open>markImu\<close> captures the cursor of a reachable
  state. In follow mode with offset \<open>off\<close>, a video time \<open>videoT\<close> moves the cursor to
  \<open>videoT - off\<close> (clamped into the cursor range), and a cursor move to \<open>imuT\<close> seeks the video to
  \<open>imuT + off\<close> (not below \<open>0\<close>).
\<close>

theorem computeOffset_and_mappings:
  "(videoMarkerT st = Some vm \<and> marker_x st = Some m \<longrightarrow>
      offset (computeOffset st) = Some (vm - m)
      \<and> syncOffset (computeOffset st) = Some (vm - m)
      \<and> followVideo (computeOffset st) = False)
   \<and> (videoMarkerT st = None \<or> marker_x st = None \<longrightarrow> computeOffset st = st)
   \<and> (video st = Some (Fin p) \<longrightarrow> videoMarkerT (markVideo st) = Some p)
   \<and> marker_x (markImu (run evs (initViewer v))) = Some (cursor_x (run evs (initViewer v)))
   \<and> (video st \<noteq> None \<and> followVideo st \<and> syncOffset st = Some off \<longrightarrow>
        cursor_x (videoTimeUpdate (Fin videoT) st)
          = clamp (Fin (videoT - off)) (cursor_minX st) (cursor_maxX st)
        \<and> (cursor_minX st \<le> videoT - off \<and> videoT - off \<le> cursor_maxX st \<longrightarrow>
             cursor_x (videoTimeUpdate (Fin videoT) st) = videoT - off)
        \<and> video (setImuCursorX x st) = Some (Fin (max 0 (cursor_x (moveCursor x st) + off)))
        \<and> (cursor_minX st \<le> imuT \<and> imuT \<le> cursor_maxX st \<and> 0 \<le> imuT + off \<longrightarrow>
             video (setImuCursorX (Fin imuT) st) = Some (Fin (imuT + off))))"
proof -
  have a: "videoMarkerT st = Some vm \<and> marker_x st = Some m \<longrightarrow>
      offset (computeOffset st) = Some (vm - m)
      \<and> syncOffset (computeOffset st) = Some (vm - m)
      \<and> followVideo (computeOffset st) = False"
    by (simp add: computeOffset_def timeSyncChanged_def setFollowVideoMode_def
          pushVideoTimeToImu_def canFollow_def split: option.splits)
  have b: "videoMarkerT st = None \<or> marker_x st = None \<longrightarrow> computeOffset st = st"
    by (auto simp: computeOffset_def split: option.splits)
  have c: "video st = Some (Fin p) \<longrightarrow> videoMarkerT (markVideo st) = Some p"
    by (simp add: markVideo_def)
  let ?r = "run evs (initViewer v)"
  have "viewerInv ?r" by (rule reachable_inv)
  then have "0 \<le> cursor_x ?r" "cursor_x ?r \<le> cursor_maxX ?r"
    by (simp_all add: viewerInv_def cursorInRange_def)
  then have d: "marker_x (markImu ?r) = Some (cursor_x ?r)"
    by (simp add: markImu_def)
  have e: "video st \<noteq> None \<and> followVideo st \<and> syncOffset st = Some off \<longrightarrow>
        cursor_x (videoTimeUpdate (Fin videoT) st)
          = clamp (Fin (videoT - off)) (cursor_minX st) (cursor_maxX st)
        \<and> (cursor_minX st \<le> videoT - off \<and> videoT - off \<le> cursor_maxX st \<longrightarrow>
             cursor_x (videoTimeUpdate (Fin videoT) st) = videoT - off)
        \<and> video (setImuCursorX x st) = Some (Fin (max 0 (cursor_x (moveCursor x st) + off)))
        \<and> (cursor_minX st \<le> imuT \<and> imuT \<le> cursor_maxX st \<and> 0 \<le> imuT + off \<longrightarrow>
             video (setImuCursorX (Fin imuT) st) = Some (Fin (imuT + off)))"
    by (auto simp: videoTimeUpdate_def pushVideoTimeToImu_def canFollow_def moveCursor_def setImuCursorX_def
          imuCursorChanged_def canFollow_def)
  from a b c d e show ?thesis by blast
qed

lemma syncDemo_state:
  "run syncDemo (initViewer (Some (Fin 0))) =
     \<lparr> cursor_x = 15 / 2, cursor_minX = 0, cursor_maxX = 20, marker_x = Some (15 / 2),
       fullRangeMaxX = 20,
       tf_t1 = None, tf_t2 = None, tf_active = False, tf_start = 0, tf_end = 0,
       videoMarkerT = Some 10, offset = None, t1 = None, t2 = None,
       followEnabled = False, followVideo = False, syncOffset = None, video = Some (Fin 10) \<rparr>"
  by (simp add: syncDemo_def viewer_defs demo_norm)

lemma followDemo_state:
  "clickFollow True (computeOffset (run syncDemo (initViewer (Some (Fin 0))))) =
     \<lparr> cursor_x = 15 / 2, cursor_minX = 0, cursor_maxX = 20, marker_x = Some (15 / 2),
       fullRangeMaxX = 20,
       tf_t1 = None, tf_t2 = None, tf_active = False, tf_start = 0, tf_end = 0,
       videoMarkerT = Some 10, offset = Some (5 / 2), t1 = None, t2 = None,
       followEnabled = True, followVideo = True, syncOffset = Some (5 / 2), video = Some (Fin 10) \<rparr>"
  by (simp add: syncDemo_state op_defs)

theorem computeOffset_and_mappings_witness:
  "offset (computeOffset (run syncDemo (initViewer (Some (Fin 0))))) = Some (5 / 2)
   \<and> computeOffset (initViewer (Some (Fin 0))) = initViewer (Some (Fin 0))
   \<and> videoMarkerT (markVideo (initViewer (Some (Fin 10)))) = Some 10
   \<and> cursor_x (videoTimeUpdate (Fin (25 / 2))
        (clickFollow True (computeOffset (run syncDemo (initViewer (Some (Fin 0))))))) = 10
   \<and> video (setImuCursorX (Fin 10)
        (clickFollow True (computeOffset (run syncDemo (initViewer (Some (Fin 0))))))) = Some (Fin (25 / 2))"
  using computeOffset_and_mappings [of "run syncDemo (initViewer (Some (Fin 0)))" 10 "15 / 2" 10 "[]" None]
    computeOffset_and_mappings [of "initViewer (Some (Fin 0))"]
    computeOffset_and_mappings [of "initViewer (Some (Fin 10))" _ _ 10]
    computeOffset_and_mappings [of "clickFollow True (computeOffset (run syncDemo (initViewer (Some (Fin 0)))))"
       _ _ _ _ _ "5 / 2" "25 / 2" _ 10]
  unfolding followDemo_state syncDemo_state by (simp add: initViewer_def op_defs)

subsection \<open>Time scale detection and normalization\<close>




lemma finiteTimes_Nil [simp]: "finiteTimes [] k = []"
  by (simp add: finiteTimes_def map_filter_simps)







lemma posDeltas_Nil [simp]: "posDeltas [] = []"
  by (simp add: posDeltas_def)























subsection \<open>Relative angles and their statistics\<close>

lemma rel_self_w: "unitQuat q \<Longrightarrow> fst (multiply (canonicalize q) (conjugate (canonicalize q))) = 1"
  by (cases q) (auto simp: unitQuat_def)

lemma relativeAngle_self: "unitQuat q \<Longrightarrow> relativeAngleDeg q q = 0"
  using rel_self_w [of q] by (simp add: relativeAngleDeg_def Let_def clampA_def rad2deg_def)

lemma canonicalize_neg: "fst q \<noteq> 0 \<Longrightarrow> canonicalize (negQuat q) = canonicalize q"
  by (cases q) (auto simp: negQuat_def)

lemma relativeAngle_neg: "unitQuat q \<Longrightarrow> fst q \<noteq> 0 \<Longrightarrow> relativeAngleDeg q (negQuat q) = 0"
  using rel_self_w [of q] canonicalize_neg [of q]
  by (simp add: relativeAngleDeg_def Let_def clampA_def rad2deg_def)

lemma relativeAngle_neg_w0:
  "unitQuat q \<Longrightarrow> fst q = 0 \<Longrightarrow> relativeAngleDeg q (negQuat q) = 360"
  by (cases q) (auto simp: unitQuat_def negQuat_def relativeAngleDeg_def Let_def clampA_def rad2deg_def)

text \<open>
  Claim C4 at the quaternion \<open>(0, 1, 0, 0)\<close>, half a turn about x: its scalar part is \<open>0\<close>, so
  neither it nor its negation is flipped by \<open>canonicalize\<close>, and the relative angle of the two
  comes out as 360 degrees instead of 0. The lemmas before this one show that the angle is 0
  for \<open>q\<close> against itself, and for \<open>q\<close> against \<open>- q\<close> whenever the scalar part is not \<open>0\<close>.
\<close>

theorem relativeAngle_neg_failing:
  "unitQuat (0, 1, 0, 0) \<and> negQuat (0, 1, 0, 0) = (0, - 1, 0, 0)
   \<and> relativeAngleDeg (0, 1, 0, 0) (0, - 1, 0, 0) = 360"
  by (simp add: unitQuat_def negQuat_def relativeAngleDeg_def Let_def clampA_def rad2deg_def)

lemma computeLoop_ok:
  "length ss = length es \<Longrightarrow> length es = length ws \<Longrightarrow>
   list_all (\<lambda>ori. length (quat ori) = 4) ss \<Longrightarrow>
   list_all (\<lambda>ori. length (quat ori) = 4) es \<Longrightarrow>
   list_all (\<lambda>ori. length (quat ori) = 4) ws \<Longrightarrow>
   computeLoop i ss es ws =
     Inr (map (\<lambda>(so, eo). relativeAngleDeg (toQuat (quat so)) (toQuat (quat eo))) (zip ss es),
          map (\<lambda>(eo, wo). relativeAngleDeg (toQuat (quat eo)) (toQuat (quat wo))) (zip es ws),
          map (\<lambda>so. eulerDeg (euler so)) ss)"
proof (induction ss es ws arbitrary: i rule: list_induct3)
  case Nil
  then show ?case by simp
next
  case (Cons so ss eo es wo ws)
  then show ?case by simp
qed

lemma compute_empty: "commonLength s tm e w = 0 \<Longrightarrow> compute s tm e w = Inl NoSamples"
  by (simp add: compute_def commonLength_def Let_def)

lemma compute_ok:
  assumes n: "0 < commonLength s tm e w"
    and qs: "quatsOk (commonLength s tm e w) s" "quatsOk (commonLength s tm e w) e"
            "quatsOk (commonLength s tm e w) w"
  shows "\<exists>out. compute s tm e w = Inr out
     \<and> length (elbow out) = commonLength s tm e w
     \<and> length (wrist out) = commonLength s tm e w
     \<and> length (shoulder out) = commonLength s tm e w
     \<and> atimes out = take (commonLength s tm e w) tm
     \<and> (\<forall>i < commonLength s tm e w.
           elbow out ! i = relativeAngleDeg (quatAt s i) (quatAt e i)
         \<and> wrist out ! i = relativeAngleDeg (quatAt e i) (quatAt w i))"
proof -
  let ?n = "commonLength s tm e w"
  let ?ss = "take ?n (orientations s)"
  let ?es = "take ?n (orientations e)"
  let ?ws = "take ?n (orientations w)"
  have len: "length ?ss = ?n" "length ?es = ?n" "length ?ws = ?n"
    by (simp_all add: commonLength_def)
  have loop: "computeLoop 0 ?ss ?es ?ws =
     Inr (map (\<lambda>(so, eo). relativeAngleDeg (toQuat (quat so)) (toQuat (quat eo))) (zip ?ss ?es),
          map (\<lambda>(eo, wo). relativeAngleDeg (toQuat (quat eo)) (toQuat (quat wo))) (zip ?es ?ws),
          map (\<lambda>so. eulerDeg (euler so)) ?ss)"
    using qs len by (intro computeLoop_ok) (simp_all add: quatsOk_def)
  let ?out = "\<lparr> elbow = map (\<lambda>(so, eo). relativeAngleDeg (toQuat (quat so)) (toQuat (quat eo))) (zip ?ss ?es),
      wrist = map (\<lambda>(eo, wo). relativeAngleDeg (toQuat (quat eo)) (toQuat (quat wo))) (zip ?es ?ws),
      shoulder = map (\<lambda>so. eulerDeg (euler so)) ?ss,
      atimes = take ?n tm \<rparr>"
  have c: "compute s tm e w = Inr ?out"
    using n loop by (simp add: compute_def commonLength_def Let_def)
  have nth: "\<forall>i < ?n. elbow ?out ! i = relativeAngleDeg (quatAt s i) (quatAt e i)
         \<and> wrist ?out ! i = relativeAngleDeg (quatAt e i) (quatAt w i)"
    using len by (simp add: quatAt_def)
  show ?thesis
    using c nth len by (intro exI [of _ ?out]) simp
qed

lemma setImuData_some:
  "ftimes s = Some tm \<Longrightarrow>
   setImuData an (Some s) (Some e) (Some w) =
     (case compute s tm e w of
        Inl err \<Rightarrow> (an\<lparr> a_shoulder := Some s, a_elbow := Some e, a_wrist := Some w \<rparr>, Inl err)
      | Inr out \<Rightarrow> (an\<lparr> a_shoulder := Some s, a_elbow := Some e, a_wrist := Some w,
                         a_angles := Some out \<rparr>, Inr out))"
  by (simp add: setImuData_def Let_def split: sum.splits)

text \<open>
  Claim C3, amended. Given three fusion results (the shoulder one with a time array) whose
  common length \<open>n\<close>, the least of the three orientation counts and the shoulder time count, is
  positive, and whose first \<open>n\<close> orientations carry four-component quaternions, the analyser
  returns and stores a series with \<open>elbow ! i\<close> the relative angle of shoulder and elbow,
  \<open>wrist ! i\<close> the relative angle of elbow and wrist for every \<open>i < n\<close>, and the shoulder times
  cut to \<open>n\<close>. With common length \<open>0\<close> it raises the error "No samples available".
\<close>

theorem arm_angles_amended:
  "ftimes s = Some tm \<longrightarrow>
     (0 < commonLength s tm e w
        \<and> quatsOk (commonLength s tm e w) s \<and> quatsOk (commonLength s tm e w) e
        \<and> quatsOk (commonLength s tm e w) w \<longrightarrow>
      (\<exists>out. snd (setImuData an (Some s) (Some e) (Some w)) = Inr out
         \<and> a_angles (fst (setImuData an (Some s) (Some e) (Some w))) = Some out
         \<and> length (elbow out) = commonLength s tm e w
         \<and> length (wrist out) = commonLength s tm e w
         \<and> atimes out = take (commonLength s tm e w) tm
         \<and> (\<forall>i < commonLength s tm e w.
               elbow out ! i = relativeAngleDeg (quatAt s i) (quatAt e i)
             \<and> wrist out ! i = relativeAngleDeg (quatAt e i) (quatAt w i))))
     \<and> (commonLength s tm e w = 0 \<longrightarrow>
          snd (setImuData an (Some s) (Some e) (Some w)) = Inl NoSamples)"
proof
  assume t: "ftimes s = Some tm"
  have a: "0 < commonLength s tm e w
        \<and> quatsOk (commonLength s tm e w) s \<and> quatsOk (commonLength s tm e w) e
        \<and> quatsOk (commonLength s tm e w) w \<longrightarrow>
      (\<exists>out. snd (setImuData an (Some s) (Some e) (Some w)) = Inr out
         \<and> a_angles (fst (setImuData an (Some s) (Some e) (Some w))) = Some out
         \<and> length (elbow out) = commonLength s tm e w
         \<and> length (wrist out) = commonLength s tm e w
         \<and> atimes out = take (commonLength s tm e w) tm
         \<and> (\<forall>i < commonLength s tm e w.
               elbow out ! i = relativeAngleDeg (quatAt s i) (quatAt e i)
             \<and> wrist out ! i = relativeAngleDeg (quatAt e i) (quatAt w i)))"
  proof
    assume h: "0 < commonLength s tm e w
        \<and> quatsOk (commonLength s tm e w) s \<and> quatsOk (commonLength s tm e w) e
        \<and> quatsOk (commonLength s tm e w) w"
    then obtain out where out: "compute s tm e w = Inr out"
      "length (elbow out) = commonLength s tm e w"
      "length (wrist out) = commonLength s tm e w"
      "atimes out = take (commonLength s tm e w) tm"
      "\<forall>i < commonLength s tm e w.
           elbow out ! i = relativeAngleDeg (quatAt s i) (quatAt e i)
         \<and> wrist out ! i = relativeAngleDeg (quatAt e i) (quatAt w i)"
      using compute_ok [of s tm e w] by blast
    show "\<exists>out. snd (setImuData an (Some s) (Some e) (Some w)) = Inr out
         \<and> a_angles (fst (setImuData an (Some s) (Some e) (Some w))) = Some out
         \<and> length (elbow out) = commonLength s tm e w
         \<and> length (wrist out) = commonLength s tm e w
         \<and> atimes out = take (commonLength s tm e w) tm
         \<and> (\<forall>i < commonLength s tm e w.
               elbow out ! i = relativeAngleDeg (quatAt s i) (quatAt e i)
             \<and> wrist out ! i = relativeAngleDeg (quatAt e i) (quatAt w i))"
      using out by (intro exI [of _ out]) (simp add: setImuData_some [OF t])
  qed
  have b: "commonLength s tm e w = 0 \<longrightarrow>
          snd (setImuData an (Some s) (Some e) (Some w)) = Inl NoSamples"
    by (simp add: setImuData_some [OF t] compute_empty)
  from a b show "(0 < commonLength s tm e w
        \<and> quatsOk (commonLength s tm e w) s \<and> quatsOk (commonLength s tm e w) e
        \<and> quatsOk (commonLength s tm e w) w \<longrightarrow>
      (\<exists>out. snd (setImuData an (Some s) (Some e) (Some w)) = Inr out
         \<and> a_angles (fst (setImuData an (Some s) (Some e) (Some w))) = Some out
         \<and> length (elbow out) = commonLength s tm e w
         \<and> length (wrist out) = commonLength s tm e w
         \<and> atimes out = take (commonLength s tm e w) tm
         \<and> (\<forall>i < commonLength s tm e w.
               elbow out ! i = relativeAngleDeg (quatAt s i) (quatAt e i)
             \<and> wrist out ! i = relativeAngleDeg (quatAt e i) (quatAt w i))))
     \<and> (commonLength s tm e w = 0 \<longrightarrow>
          snd (setImuData an (Some s) (Some e) (Some w)) = Inl NoSamples)" by blast
qed

lemmas arm_defs = setImuData_def compute_def mkFusion_def mkOri_def newAnalyser_def
  relativeAngleDeg_def clampA_def rad2deg_def toQuat_def eulerDeg_def Let_def

lemma c3_run:
  "setImuData newAnalyser (Some c3Shoulder) (Some c3Elbow) (Some c3Wrist) =
     (\<lparr> a_shoulder = Some c3Shoulder, a_elbow = Some c3Elbow, a_wrist = Some c3Wrist,
        a_angles = Some \<lparr> elbow = [180, 0], wrist = [0, 180], shoulder = [None, None],
                          atimes = [0, 1] \<rparr> \<rparr>,
      Inr \<lparr> elbow = [180, 0], wrist = [0, 180], shoulder = [None, None], atimes = [0, 1] \<rparr>)"
  by (simp add: c3Shoulder_def c3Elbow_def c3Wrist_def arm_defs)

theorem arm_angles_amended_witness:
  "commonLength c3Shoulder [0, 1, 2] c3Elbow c3Wrist = 2
   \<and> snd (setImuData newAnalyser (Some c3Shoulder) (Some c3Elbow) (Some c3Wrist))
       = Inr \<lparr> elbow = [180, 0], wrist = [0, 180], shoulder = [None, None], atimes = [0, 1] \<rparr>
   \<and> relativeAngleDeg (quatAt c3Shoulder 0) (quatAt c3Elbow 0) = 180
   \<and> relativeAngleDeg (quatAt c3Elbow 1) (quatAt c3Wrist 1) = 180
   \<and> commonLength emptyFusion [] c3Elbow c3Wrist = 0
   \<and> snd (setImuData newAnalyser (Some emptyFusion) (Some c3Elbow) (Some c3Wrist)) = Inl NoSamples"
  using arm_angles_amended [of c3Shoulder "[0, 1, 2]" c3Elbow c3Wrist newAnalyser]
    arm_angles_amended [of emptyFusion "[]" c3Elbow c3Wrist newAnalyser]
  unfolding c3_run
  by (simp add: commonLength_def quatsOk_def quatAt_def emptyFusion_def c3Shoulder_def c3Elbow_def
        c3Wrist_def arm_defs)

text \<open>
  Claim C3 as stated fails when a stream is empty: with an elbow stream of no samples the
  common length is \<open>0\<close>, and the analyser raises an error instead of returning a series of
  that length; no series is stored.
\<close>

theorem arm_angles_counterexample:
  "snd (setImuData newAnalyser (Some c3Shoulder) (Some emptyFusion) (Some c3Wrist)) = Inl NoSamples
   \<and> a_angles (fst (setImuData newAnalyser (Some c3Shoulder) (Some emptyFusion) (Some c3Wrist))) = None"
  by (simp add: emptyFusion_def c3Shoulder_def c3Wrist_def arm_defs)

lemma statsOf_examples:
  "statsOf [NaN, NaN] = \<lparr> st_mean = NaN, st_min = PInf, st_max = NInf, st_range = NInf \<rparr>"
  "statsOf [Fin 180, Fin 0] = \<lparr> st_mean = Fin 90, st_min = Fin 0, st_max = Fin 180, st_range = Fin 180 \<rparr>"
  "statsOf [Fin 1, NaN, Fin 3] = \<lparr> st_mean = NaN, st_min = Fin 1, st_max = Fin 3, st_range = Fin 2 \<rparr>"
  by (simp_all add: statsOf_def)

lemma computeLoop_Cons_nonempty:
  assumes "computeLoop i (so # ss) (eo # es) (wo # ws) = Inr (el, wr, sh)"
  shows "el \<noteq> [] \<and> wr \<noteq> []"
proof -
  have q: "length (quat so) = 4" "length (quat eo) = 4" "length (quat wo) = 4"
    using assms by (simp_all split: if_splits)
  show ?thesis
  proof (cases "computeLoop (i + 1) ss es ws")
    case (Inl err)
    then show ?thesis using assms q by simp
  next
    case (Inr r)
    obtain el' wr' sh' where r: "r = (el', wr', sh')" by (cases r)
    show ?thesis using assms q Inr unfolding r by auto
  qed
qed

lemma compute_nonempty:
  assumes c: "compute s tm e w = Inr out"
  shows "elbow out \<noteq> [] \<and> wrist out \<noteq> []"
proof -
  let ?n = "commonLength s tm e w"
  have n: "0 < ?n"
  proof (rule ccontr)
    assume "\<not> 0 < ?n"
    then have "compute s tm e w = Inl NoSamples" by (simp add: compute_empty)
    then show False using c by simp
  qed
  have len: "length (take ?n (orientations s)) = ?n" "length (take ?n (orientations e)) = ?n"
    "length (take ?n (orientations w)) = ?n"
    by (simp_all add: commonLength_def)
  obtain so ss where ss: "take ?n (orientations s) = so # ss"
    using n len(1) by (cases "take ?n (orientations s)") simp_all
  obtain eo es where es: "take ?n (orientations e) = eo # es"
    using n len(2) by (cases "take ?n (orientations e)") simp_all
  obtain wo ws where ws: "take ?n (orientations w) = wo # ws"
    using n len(3) by (cases "take ?n (orientations w)") simp_all
  have cd: "compute s tm e w =
      (case computeLoop 0 (so # ss) (eo # es) (wo # ws) of
         Inl err \<Rightarrow> Inl err
       | Inr (el, wr, sh) \<Rightarrow> Inr \<lparr> elbow = el, wrist = wr, shoulder = sh, atimes = take ?n tm \<rparr>)"
    using n unfolding compute_def Let_def commonLength_def [symmetric] ss es ws by simp
  show ?thesis
  proof (cases "computeLoop 0 (so # ss) (eo # es) (wo # ws)")
    case (Inl err)
    then show ?thesis using c cd by simp
  next
    case (Inr r)
    obtain el wr sh where r: "r = (el, wr, sh)" by (cases r)
    have "el \<noteq> [] \<and> wr \<noteq> []"
      using computeLoop_Cons_nonempty [of 0 so ss eo es wo ws el wr sh] Inr r by simp
    moreover have "out = \<lparr> elbow = el, wrist = wr, shoulder = sh, atimes = take ?n tm \<rparr>"
      using c cd Inr r by simp
    ultimately show ?thesis by simp
  qed
qed

lemma setImuData_Inr:
  assumes "setImuData an sh el wr = (an', Inr out)"
  shows "\<exists>s tm e w. compute s tm e w = Inr out \<and> a_angles an' = Some out"
proof (cases sh)
  case None
  then show ?thesis using assms by (simp add: setImuData_def)
next
  case S: (Some s)
  show ?thesis
  proof (cases el)
    case None
    then show ?thesis using assms S by (simp add: setImuData_def)
  next
    case E: (Some e)
    show ?thesis
    proof (cases wr)
      case None
      then show ?thesis using assms S E by (simp add: setImuData_def)
    next
      case W: (Some w)
      show ?thesis
      proof (cases "ftimes s")
        case None
        then show ?thesis using assms S E W by (simp add: setImuData_def)
      next
        case T: (Some tm)
        show ?thesis
        proof (cases "compute s tm e w")
          case (Inl err)
          then show ?thesis using assms S E W T by (simp add: setImuData_def)
        next
          case (Inr o2)
          then have "a_angles an' = Some o2 \<and> out = o2"
            using assms S E W T by (auto simp: setImuData_def)
          then show ?thesis using Inr by auto
        qed
      qed
    qed
  qed
qed

lemma setImuData_series_nonempty:
  assumes r: "setImuData an sh el wr = (an', Inr out)"
  shows "elbow out \<noteq> [] \<and> wrist out \<noteq> []
         \<and> getStatistics an' = Some (statsOf (map Fin (elbow out)), statsOf (map Fin (wrist out)))"
proof -
  obtain s' e' w' tm' where c: "compute s' tm' e' w' = Inr out"
    and an': "a_angles an' = Some out"
    using setImuData_Inr [OF r] by blast
  have ne: "elbow out \<noteq> [] \<and> wrist out \<noteq> []" by (rule compute_nonempty [OF c])
  then show ?thesis using an' by (simp add: getStatistics_def)
qed

text \<open>
  Claim C8, amended. \<open>statsOf\<close> of an empty series is all \<^verbatim>\<open>NaN\<close> and raises nothing. The
  analyser, though, raises "No samples available to compute angles." when the common length
  of its streams is \<open>0\<close>, instead of yielding statistics of \<^verbatim>\<open>NaN\<close>: it keeps the series it
  held, so the statistics read back after the call are those from before it.
\<close>

theorem stats_amended:
  "statsOf [] = nanStats
   \<and> (ftimes s = Some tm \<and> commonLength s tm e w = 0 \<longrightarrow>
        snd (setImuData an (Some s) (Some e) (Some w)) = Inl NoSamples
        \<and> a_angles (fst (setImuData an (Some s) (Some e) (Some w))) = a_angles an
        \<and> getStatistics (fst (setImuData an (Some s) (Some e) (Some w))) = getStatistics an)"
proof -
  have a: "statsOf [] = nanStats" by (simp add: statsOf_def nanStats_def)
  have b: "ftimes s = Some tm \<and> commonLength s tm e w = 0 \<longrightarrow>
        snd (setImuData an (Some s) (Some e) (Some w)) = Inl NoSamples
        \<and> a_angles (fst (setImuData an (Some s) (Some e) (Some w))) = a_angles an
        \<and> getStatistics (fst (setImuData an (Some s) (Some e) (Some w))) = getStatistics an"
    by (simp add: setImuData_some compute_empty getStatistics_def)
  from a b show ?thesis by blast
qed

theorem stats_amended_witness:
  "statsOf [] = nanStats
   \<and> commonLength emptyFusion [] c3Elbow c3Wrist = 0
   \<and> snd (setImuData newAnalyser (Some emptyFusion) (Some c3Elbow) (Some c3Wrist)) = Inl NoSamples
   \<and> getStatistics (fst (setImuData newAnalyser (Some emptyFusion) (Some c3Elbow) (Some c3Wrist)))
       = None
   \<and> snd (setImuData (fst (setImuData newAnalyser (Some c3Shoulder) (Some c3Elbow) (Some c3Wrist)))
            (Some emptyFusion) (Some c3Elbow) (Some c3Wrist)) = Inl NoSamples
   \<and> getStatistics
       (fst (setImuData (fst (setImuData newAnalyser (Some c3Shoulder) (Some c3Elbow) (Some c3Wrist)))
               (Some emptyFusion) (Some c3Elbow) (Some c3Wrist)))
       = Some (\<lparr> st_mean = Fin 90, st_min = Fin 0, st_max = Fin 180, st_range = Fin 180 \<rparr>,
               \<lparr> st_mean = Fin 90, st_min = Fin 0, st_max = Fin 180, st_range = Fin 180 \<rparr>)"
  using stats_amended [of emptyFusion "[]" c3Elbow c3Wrist newAnalyser]
    stats_amended [of emptyFusion "[]" c3Elbow c3Wrist
      "fst (setImuData newAnalyser (Some c3Shoulder) (Some c3Elbow) (Some c3Wrist))"]
  unfolding c3_run
  by (simp add: commonLength_def emptyFusion_def mkFusion_def getStatistics_def newAnalyser_def
        statsOf_def)

text \<open>
  Claim C8 as stated fails: given three streams without samples, the engine raises
  "No samples available" and holds no statistics at all, rather than statistics of \<^verbatim>\<open>NaN\<close>.
\<close>

theorem stats_counterexample:
  "snd (setImuData newAnalyser (Some emptyFusion) (Some emptyFusion) (Some emptyFusion)) = Inl NoSamples
   \<and> getStatistics (fst (setImuData newAnalyser (Some emptyFusion) (Some emptyFusion) (Some emptyFusion)))
       = None"
  by (simp add: emptyFusion_def getStatistics_def arm_defs)

subsection \<open>Header matching, sample rate and the filter loop\<close>

lemma normalize_examples:
  "normalize ''Acc-X'' = ''acc_x''" "normalize ''ACC Y'' = ''acc_y''"
  "normalize '' acc_z '' = ''acc_z''" "normalize ''gyro.y'' = ''gyro_y''"
  "normalize ''__Mag  X__'' = ''mag_x''"
  by (simp_all add: normalize_def trim_def isSpaceChar_def toLowerChar_def isLowerAlnum_def
        stripUnderscores_def)

lemma indexOf_None_iff: "(indexOf xs v = None) = (v \<notin> set xs)"
  by (induction xs) auto

lemma findIndex_Some_iff: "(findIndex nh cs \<noteq> None) = (\<exists>c\<in>set cs. normalize c \<in> set nh)"
proof (induction cs)
  case Nil
  then show ?case by simp
next
  case (Cons c cs)
  show ?case
  proof (cases "indexOf nh (normalize c)")
    case None
    then have "normalize c \<notin> set nh" by (simp add: indexOf_None_iff)
    then show ?thesis using None Cons by simp
  next
    case (Some i)
    then have "normalize c \<in> set nh" using indexOf_None_iff [of nh "normalize c"] by simp
    then show ?thesis using Some by simp
  qed
qed

lemmas norm_defs = normalize_def trim_def isSpaceChar_def toLowerChar_def isLowerAlnum_def
  stripUnderscores_def

lemma candidates_normal: "c \<in> set (candidates sn ax) \<Longrightarrow> normalize c = c"
  by (cases sn; cases ax) (auto simp: norm_defs)

lemma all_axis: "(\<forall>ax. P ax) = (P AxisX \<and> P AxisY \<and> P AxisZ)"
  by (metis axis.exhaust)

lemma all_sensor: "(\<forall>sn. P sn) = (P Acc \<and> P Gyro \<and> P Mag)"
  by (metis sensor.exhaust)

lemma findIndex_candidates:
  "(findIndex (map normalize headers) (candidates sn ax) \<noteq> None)
     = (\<exists>c\<in>set (candidates sn ax). \<exists>h\<in>set headers. normalize h = c)"
proof -
  have "(findIndex (map normalize headers) (candidates sn ax) \<noteq> None)
      = (\<exists>c\<in>set (candidates sn ax). normalize c \<in> set (map normalize headers))"
    by (rule findIndex_Some_iff)
  also have "\<dots> = (\<exists>c\<in>set (candidates sn ax). c \<in> set (map normalize headers))"
    using candidates_normal by (intro bex_cong) simp_all
  also have "\<dots> = (\<exists>c\<in>set (candidates sn ax). \<exists>h\<in>set headers. normalize h = c)"
    by auto
  finally show ?thesis .
qed

lemma hasAxisData_iff:
  "hasAxisData headers sn = (\<forall>ax. \<exists>c\<in>set (candidates sn ax). \<exists>h\<in>set headers. normalize h = c)"
  unfolding all_axis findIndex_candidates [symmetric]
  by (simp add: hasAxisData_def findAxisKeys_def Let_def)

lemma has9Dof_iff:
  "has9Dof headers = (\<forall>sn ax. \<exists>c\<in>set (candidates sn ax). \<exists>h\<in>set headers. normalize h = c)"
  unfolding all_sensor hasAxisData_iff [symmetric] by (simp add: has9Dof_def)

lemma process_cases:
  "process lib rows headers ts sr alg beta =
     (if rows = [] then Inl NoImuData
      else if \<not> has9Dof headers then Inl NineDofRequired
      else (case createFilter lib (case alg of None \<Rightarrow> ''madgwick'' | Some a \<Rightarrow> a)
                    (case sr of None \<Rightarrow> 100 | Some r \<Rightarrow> r)
                    (case beta of None \<Rightarrow> 1 / 10 | Some b \<Rightarrow> b) of
              Inl err \<Rightarrow> Inl err
            | Inr flt \<Rightarrow>
                Inr \<lparr> ftimes = ts,
                      orientations = runFilter lib flt
                        (processInputs rows headers (case sr of None \<Rightarrow> 100 | Some r \<Rightarrow> r)),
                      algorithm = (case alg of None \<Rightarrow> ''madgwick'' | Some a \<Rightarrow> a),
                      sampleRate = (case sr of None \<Rightarrow> 100 | Some r \<Rightarrow> r) \<rparr>))"
  by (simp add: process_def has9Dof_def Let_def)

lemma createFilter_noLib: "newMadgwick lib = None \<Longrightarrow> createFilter lib a sr b = Inl AhrsNotLoaded"
  by (simp add: createFilter_def)

lemma createFilter_unknown:
  "newMadgwick lib \<noteq> None \<Longrightarrow> \<not> knownAlgorithm a \<Longrightarrow> createFilter lib a sr b = Inl (UnknownAlgorithm a)"
  by (auto simp: createFilter_def knownAlgorithm_def)

lemma createFilter_Inr:
  "createFilter lib a sr b = Inr flt \<Longrightarrow> newMadgwick lib \<noteq> None \<and> knownAlgorithm a"
  by (auto simp: createFilter_def knownAlgorithm_def split: option.splits if_splits)

lemma createFilter_madgwick:
  "newMadgwick lib = Some mk \<Longrightarrow> createFilter lib ''madgwick'' sr b = Inr (mk (1000 / sr) b)"
  by (simp add: createFilter_def)

text \<open>
  Claim C7. \<open>process\<close> ends with an error whenever an accelerometer, gyroscope or magnetometer
  axis cannot be found among the normalized headers (\<open>NineDofRequired\<close> on non-empty rows),
  whenever the AHRS script is not loaded (\<open>AhrsNotLoaded\<close>) and whenever the algorithm name is
  unknown (\<open>UnknownAlgorithm\<close>); when it returns a result, the rows were non-empty, all nine
  axes were found, the script was loaded and the algorithm was one of the three known names.
  An axis is found exactly when some header normalizes (trimmed, lower-cased, separators
  squashed to one underscore) to one of its candidate names.
\<close>

theorem process_fails_without_9dof:
  "(\<not> has9Dof headers \<longrightarrow>
      (\<exists>err. process lib rows headers ts sr alg beta = Inl err)
      \<and> (rows \<noteq> [] \<longrightarrow> process lib rows headers ts sr alg beta = Inl NineDofRequired))
   \<and> (newMadgwick lib = None \<longrightarrow>
        (\<exists>err. process lib rows headers ts sr alg beta = Inl err)
        \<and> (rows \<noteq> [] \<and> has9Dof headers \<longrightarrow>
             process lib rows headers ts sr alg beta = Inl AhrsNotLoaded))
   \<and> (alg = Some a \<and> \<not> knownAlgorithm a \<longrightarrow>
        (\<exists>err. process lib rows headers ts sr alg beta = Inl err)
        \<and> (rows \<noteq> [] \<and> has9Dof headers \<and> newMadgwick lib \<noteq> None \<longrightarrow>
             process lib rows headers ts sr alg beta = Inl (UnknownAlgorithm a)))
   \<and> (process lib rows headers ts sr alg beta = Inr res \<longrightarrow>
        rows \<noteq> [] \<and> has9Dof headers \<and> newMadgwick lib \<noteq> None \<and> knownAlgorithm (algorithm res))
   \<and> has9Dof headers
        = (\<forall>sn ax. \<exists>c\<in>set (candidates sn ax). \<exists>h\<in>set headers. normalize h = c)"
proof -
  let ?p = "process lib rows headers ts sr alg beta"
  let ?a = "case alg of None \<Rightarrow> ''madgwick'' | Some a \<Rightarrow> a"
  let ?sr = "case sr of None \<Rightarrow> 100 | Some r \<Rightarrow> r"
  let ?b = "case beta of None \<Rightarrow> 1 / 10 | Some b \<Rightarrow> b"
  have c1: "\<not> has9Dof headers \<longrightarrow>
      (\<exists>err. ?p = Inl err) \<and> (rows \<noteq> [] \<longrightarrow> ?p = Inl NineDofRequired)"
    by (simp add: process_cases)
  have c2: "newMadgwick lib = None \<longrightarrow>
        (\<exists>err. ?p = Inl err) \<and> (rows \<noteq> [] \<and> has9Dof headers \<longrightarrow> ?p = Inl AhrsNotLoaded)"
    by (simp add: process_cases createFilter_noLib)
  have c3: "alg = Some a \<and> \<not> knownAlgorithm a \<longrightarrow>
        (\<exists>err. ?p = Inl err)
        \<and> (rows \<noteq> [] \<and> has9Dof headers \<and> newMadgwick lib \<noteq> None \<longrightarrow> ?p = Inl (UnknownAlgorithm a))"
  proof
    assume h: "alg = Some a \<and> \<not> knownAlgorithm a"
    show "(\<exists>err. ?p = Inl err)
        \<and> (rows \<noteq> [] \<and> has9Dof headers \<and> newMadgwick lib \<noteq> None \<longrightarrow> ?p = Inl (UnknownAlgorithm a))"
    proof (cases "newMadgwick lib")
      case None
      then show ?thesis by (simp add: process_cases createFilter_noLib)
    next
      case (Some mk)
      then have "createFilter lib a ?sr ?b = Inl (UnknownAlgorithm a)"
        using h by (intro createFilter_unknown) simp_all
      then show ?thesis using h by (simp add: process_cases)
    qed
  qed
  have c4: "?p = Inr res \<longrightarrow>
        rows \<noteq> [] \<and> has9Dof headers \<and> newMadgwick lib \<noteq> None \<and> knownAlgorithm (algorithm res)"
  proof
    assume r: "?p = Inr res"
    then have ne: "rows \<noteq> []" "has9Dof headers"
      by (auto simp: process_cases split: if_splits)
    then obtain flt where f: "createFilter lib ?a ?sr ?b = Inr flt" and al: "algorithm res = ?a"
      using r by (auto simp: process_cases split: sum.splits)
    show "rows \<noteq> [] \<and> has9Dof headers \<and> newMadgwick lib \<noteq> None \<and> knownAlgorithm (algorithm res)"
      using ne createFilter_Inr [OF f] al by simp
  qed
  from c1 c2 c3 c4 has9Dof_iff [of headers] show ?thesis by blast
qed

lemma demoHeaders_norm:
  "map normalize demoHeaders =
     [''time'', ''acc_x'', ''acc_y'', ''acc_z'', ''gyrox'', ''gyro_y'', ''gz'', ''mag_x'',
      ''magnetometer_y'', ''mz'']"
  by (simp add: demoHeaders_def norm_defs)

lemma demoHeaders_keys:
  "findAxisKeys demoHeaders Acc = \<lparr> kx = Some 1, ky = Some 2, kz = Some 3 \<rparr>"
  "findAxisKeys demoHeaders Gyro = \<lparr> kx = Some 4, ky = Some 5, kz = Some 6 \<rparr>"
  "findAxisKeys demoHeaders Mag = \<lparr> kx = Some 7, ky = Some 8, kz = Some 9 \<rparr>"
  unfolding findAxisKeys_def Let_def demoHeaders_norm
  by (simp_all add: norm_defs)

lemma demoHeaders_9dof: "has9Dof demoHeaders"
  by (simp add: has9Dof_def hasAxisData_def Let_def demoHeaders_keys)

lemma noMagHeaders_norm:
  "map normalize noMagHeaders = [''time'', ''ax'', ''ay'', ''az'', ''gx'', ''gy'', ''gz'']"
  by (simp add: noMagHeaders_def norm_defs)

lemma noMagHeaders_mag: "\<not> hasAxisData noMagHeaders Mag"
  unfolding hasAxisData_def findAxisKeys_def Let_def noMagHeaders_norm
  by (simp add: norm_defs)

lemma noMagHeaders_9dof: "\<not> has9Dof noMagHeaders"
  by (simp add: has9Dof_def noMagHeaders_mag)

theorem process_fails_without_9dof_witness:
  "\<not> has9Dof noMagHeaders
   \<and> process recLib demoSamples noMagHeaders None None None None = Inl NineDofRequired
   \<and> has9Dof demoHeaders
   \<and> process noLib demoSamples demoHeaders None None None None = Inl AhrsNotLoaded
   \<and> process recLib demoSamples demoHeaders None None (Some ''kalman'') None
       = Inl (UnknownAlgorithm ''kalman'')
   \<and> (\<exists>res. process recLib demoSamples demoHeaders None None None None = Inr res)"
  using process_fails_without_9dof [of noMagHeaders recLib demoSamples None None None None]
    process_fails_without_9dof [of demoHeaders noLib demoSamples None None None None]
    process_fails_without_9dof [of demoHeaders recLib demoSamples None None "Some ''kalman''" None
      "''kalman''"]
    demoHeaders_9dof noMagHeaders_9dof
  by (simp add: noLib_def recLib_def knownAlgorithm_def demoSamples_def process_cases
        createFilter_def)














end
